theory Spec2Isabelle
  imports Complex_Main "HOL-Library.Word"
begin

unbundle bit_operations_syntax

section \<open>JavaScript numbers and bitwise operators\<close>

text \<open>
  Flag values, return codes and body ids are integer-valued JavaScript numbers and are
  modelled as \<open>int\<close>. The bitwise operators of JavaScript convert both operands to
  32-bit two's complement (ToInt32) and give a signed 32-bit result; the conversion is
  written out with \<open>32 word\<close>. Day counts, angles and hours are modelled as \<open>real\<close>.
\<close>

definition to_int32 :: "int \<Rightarrow> int" where
  "to_int32 n = sint (word_of_int n :: 32 word)"

definition js_or :: "int \<Rightarrow> int \<Rightarrow> int" where
  "js_or a b = sint ((word_of_int a :: 32 word) OR word_of_int b)"

definition js_and :: "int \<Rightarrow> int \<Rightarrow> int" where
  "js_and a b = sint ((word_of_int a :: 32 word) AND word_of_int b)"

definition js_not :: "int \<Rightarrow> int" where
  "js_not a = sint (NOT (word_of_int a :: 32 word))"

definition is_int32 :: "int \<Rightarrow> bool" where
  "is_int32 n = (- 2147483648 \<le> n \<and> n < 2147483648)"

section \<open>Enums (enums.ts)\<close>

datatype CalculationFlag =
    JPLEphemeris | SwissEphemeris | MoshierEphemeris | Heliocentric | TruePositions
  | J2000 | NoNutation | Speed3 | Speed | NoGravitationalDeflection | NoAberration
  | Equatorial | XYZ | Radians | Barycentric | Topocentric | Sidereal | ICRS
  | DpsidepsIAU1980 | JPLHorizons | JPLHorizonsApprox

fun CalculationFlag_value :: "CalculationFlag \<Rightarrow> int" where
  "CalculationFlag_value JPLEphemeris = 1"
| "CalculationFlag_value SwissEphemeris = 2"
| "CalculationFlag_value MoshierEphemeris = 4"
| "CalculationFlag_value Heliocentric = 8"
| "CalculationFlag_value TruePositions = 16"
| "CalculationFlag_value J2000 = 32"
| "CalculationFlag_value NoNutation = 64"
| "CalculationFlag_value Speed3 = 128"
| "CalculationFlag_value Speed = 256"
| "CalculationFlag_value NoGravitationalDeflection = 512"
| "CalculationFlag_value NoAberration = 1024"
| "CalculationFlag_value Equatorial = 2048"
| "CalculationFlag_value XYZ = 4096"
| "CalculationFlag_value Radians = 8192"
| "CalculationFlag_value Barycentric = 16384"
| "CalculationFlag_value Topocentric = 32768"
| "CalculationFlag_value Sidereal = 65536"
| "CalculationFlag_value ICRS = 131072"
| "CalculationFlag_value DpsidepsIAU1980 = 262144"
| "CalculationFlag_value JPLHorizons = 524288"
| "CalculationFlag_value JPLHorizonsApprox = 1048576"

text \<open>\<open>CommonCalculationFlags.DefaultSwissEphemeris\<close> and \<open>DefaultMoshier\<close>.\<close>

definition DefaultSwissEphemeris :: int where
  "DefaultSwissEphemeris =
     js_or (CalculationFlag_value SwissEphemeris) (CalculationFlag_value Speed)"

definition DefaultMoshier :: int where
  "DefaultMoshier =
     js_or (CalculationFlag_value MoshierEphemeris) (CalculationFlag_value Speed)"

datatype EclipseType =
  Central | NonCentral | Total | Annular | Partial | AnnularTotal | Penumbral

fun EclipseType_value :: "EclipseType \<Rightarrow> int" where
  "EclipseType_value Central = 1"
| "EclipseType_value NonCentral = 2"
| "EclipseType_value Total = 4"
| "EclipseType_value Annular = 8"
| "EclipseType_value Partial = 16"
| "EclipseType_value AnnularTotal = 32"
| "EclipseType_value Penumbral = 64"

datatype CalendarType = Julian | Gregorian

fun CalendarType_value :: "CalendarType \<Rightarrow> int" where
  "CalendarType_value Julian = 0"
| "CalendarType_value Gregorian = 1"

section \<open>Flag builders and normalisation (flags.ts)\<close>

text \<open>
  An argument typed \<open>T | T[]\<close> is either one value or an array of them; the methods
  branch on \<open>Array.isArray\<close>.
\<close>

datatype 'a one_or_many = One 'a | Many "'a list"

record CalculationFlags =
  cf_flags :: int

definition CalculationFlags_or_in :: "CalculationFlags \<Rightarrow> CalculationFlag \<Rightarrow> CalculationFlags" where
  "CalculationFlags_or_in b f = b\<lparr>cf_flags := js_or (cf_flags b) (CalculationFlag_value f)\<rparr>"

definition CalculationFlags_and_out :: "CalculationFlags \<Rightarrow> CalculationFlag \<Rightarrow> CalculationFlags" where
  "CalculationFlags_and_out b f =
     b\<lparr>cf_flags := js_and (cf_flags b) (js_not (CalculationFlag_value f))\<rparr>"

fun CalculationFlags_add :: "CalculationFlags \<Rightarrow> CalculationFlag one_or_many \<Rightarrow> CalculationFlags" where
  "CalculationFlags_add b (Many fs) = foldl CalculationFlags_or_in b fs"
| "CalculationFlags_add b (One f) = CalculationFlags_or_in b f"

fun CalculationFlags_remove :: "CalculationFlags \<Rightarrow> CalculationFlag one_or_many \<Rightarrow> CalculationFlags" where
  "CalculationFlags_remove b (Many fs) = foldl CalculationFlags_and_out b fs"
| "CalculationFlags_remove b (One f) = CalculationFlags_and_out b f"

definition CalculationFlags_has :: "CalculationFlags \<Rightarrow> CalculationFlag \<Rightarrow> bool" where
  "CalculationFlags_has b f =
     (js_and (cf_flags b) (CalculationFlag_value f) = CalculationFlag_value f)"

definition CalculationFlags_toNumber :: "CalculationFlags \<Rightarrow> int" where
  "CalculationFlags_toNumber b = cf_flags b"

text \<open>
  The private field \<open>flags\<close> of the two builder classes is named \<open>cf_flags\<close> and
  \<open>et_flags\<close> here, since \<open>flags\<close> is also a field of the position record.
  The constructor: the field starts at 0, then the optional initial flags are added.
\<close>

definition CalculationFlags_new :: "CalculationFlag one_or_many option \<Rightarrow> CalculationFlags" where
  "CalculationFlags_new initialFlags =
     (case initialFlags of
        None \<Rightarrow> \<lparr>cf_flags = 0\<rparr>
      | Some a \<Rightarrow> CalculationFlags_add \<lparr>cf_flags = 0\<rparr> a)"

definition CalculationFlags_from :: "CalculationFlag list \<Rightarrow> CalculationFlags" where
  "CalculationFlags_from fs = CalculationFlags_new (Some (Many fs))"

record EclipseTypeFlags =
  et_flags :: int

definition EclipseTypeFlags_or_in :: "EclipseTypeFlags \<Rightarrow> EclipseType \<Rightarrow> EclipseTypeFlags" where
  "EclipseTypeFlags_or_in b f = b\<lparr>et_flags := js_or (et_flags b) (EclipseType_value f)\<rparr>"

fun EclipseTypeFlags_add :: "EclipseTypeFlags \<Rightarrow> EclipseType one_or_many \<Rightarrow> EclipseTypeFlags" where
  "EclipseTypeFlags_add b (Many fs) = foldl EclipseTypeFlags_or_in b fs"
| "EclipseTypeFlags_add b (One f) = EclipseTypeFlags_or_in b f"

definition EclipseTypeFlags_toNumber :: "EclipseTypeFlags \<Rightarrow> int" where
  "EclipseTypeFlags_toNumber b = et_flags b"

definition EclipseTypeFlags_new :: "EclipseType one_or_many option \<Rightarrow> EclipseTypeFlags" where
  "EclipseTypeFlags_new initialFlags =
     (case initialFlags of
        None \<Rightarrow> \<lparr>et_flags = 0\<rparr>
      | Some a \<Rightarrow> EclipseTypeFlags_add \<lparr>et_flags = 0\<rparr> a)"

definition EclipseTypeFlags_from :: "EclipseType list \<Rightarrow> EclipseTypeFlags" where
  "EclipseTypeFlags_from fs = EclipseTypeFlags_new (Some (Many fs))"

text \<open>
  \<open>CalculationFlagInput = number | CalculationFlag | CalculationFlags | CalculationFlag[]\<close>.
  A named option is a number at run time, so it leaves through the first test of
  \<open>normalizeFlags\<close> like a raw integer does.
\<close>

datatype CalculationFlagInput =
    RawNumber int
  | NamedFlag CalculationFlag
  | FlagBuilder CalculationFlags
  | FlagArray "CalculationFlag list"

fun normalizeFlags :: "CalculationFlagInput \<Rightarrow> int" where
  "normalizeFlags (RawNumber n) = n"
| "normalizeFlags (NamedFlag f) = CalculationFlag_value f"
| "normalizeFlags (FlagBuilder b) = CalculationFlags_toNumber b"
| "normalizeFlags (FlagArray fs) = CalculationFlags_toNumber (CalculationFlags_from fs)"

datatype EclipseTypeFlagInput =
    RawType int
  | NamedType EclipseType
  | TypeBuilder EclipseTypeFlags
  | TypeArray "EclipseType list"

fun normalizeEclipseTypes :: "EclipseTypeFlagInput \<Rightarrow> int" where
  "normalizeEclipseTypes (RawType n) = n"
| "normalizeEclipseTypes (NamedType f) = EclipseType_value f"
| "normalizeEclipseTypes (TypeBuilder b) = EclipseTypeFlags_toNumber b"
| "normalizeEclipseTypes (TypeArray fs) = EclipseTypeFlags_toNumber (EclipseTypeFlags_from fs)"

text \<open>
  The expression \<open>f1 | f2 | ... | fn\<close> a caller writes to pass a raw integer: the
  operator associates to the left; one option alone is its own value, and no option at
  all is 0.
\<close>

fun raw_or :: "CalculationFlag list \<Rightarrow> int" where
  "raw_or [] = 0"
| "raw_or (f # fs) = foldl js_or (CalculationFlag_value f) (map CalculationFlag_value fs)"

text \<open>A builder that receives one \<open>add\<close> call per option, in order.\<close>

definition add_each :: "CalculationFlags \<Rightarrow> CalculationFlag list \<Rightarrow> CalculationFlags" where
  "add_each b fs = foldl (\<lambda>b f. CalculationFlags_add b (One f)) b fs"

section \<open>Result records and convenience methods (results.ts, implementations.ts)\<close>

datatype HouseSystem =
    Placidus | Koch | Porphyrius | Regiomontanus | Campanus | Equal | VehlowEqual
  | WholeSign | Meridian | Azimuthal | PolichPage | Alcabitus | Morinus

fun HouseSystem_value :: "HouseSystem \<Rightarrow> char" where
  "HouseSystem_value Placidus = CHR ''P''"
| "HouseSystem_value Koch = CHR ''K''"
| "HouseSystem_value Porphyrius = CHR ''O''"
| "HouseSystem_value Regiomontanus = CHR ''R''"
| "HouseSystem_value Campanus = CHR ''C''"
| "HouseSystem_value Equal = CHR ''A''"
| "HouseSystem_value VehlowEqual = CHR ''V''"
| "HouseSystem_value WholeSign = CHR ''W''"
| "HouseSystem_value Meridian = CHR ''X''"
| "HouseSystem_value Azimuthal = CHR ''H''"
| "HouseSystem_value PolichPage = CHR ''T''"
| "HouseSystem_value Alcabitus = CHR ''B''"
| "HouseSystem_value Morinus = CHR ''M''"

record PlanetaryPosition =
  longitude :: real
  latitude :: real
  distance :: real
  longitudeSpeed :: real
  latitudeSpeed :: real
  distanceSpeed :: real
  flags :: int

record HouseData =
  cusps :: "real list"
  ascendant :: real
  mc :: real
  armc :: real
  vertex :: real
  equatorialAscendant :: real
  coAscendant1 :: real
  coAscendant2 :: real
  polarAscendant :: real
  houseSystem :: HouseSystem

record DateTimeImpl =
  year :: int
  month :: int
  day :: int
  hour :: real
  calendarType :: CalendarType

text \<open>
  Both eclipse classes start with the same four constructor fields; they are declared
  once and extended by the class's own four boundary slots.
\<close>

record EclipseFields =
  type :: int
  maximum :: real
  partialBegin :: real
  partialEnd :: real

record LunarEclipseImpl = EclipseFields +
  totalBegin :: real
  totalEnd :: real
  penumbralBegin :: real
  penumbralEnd :: real

record SolarEclipseImpl = EclipseFields +
  centralBegin :: real
  centralEnd :: real
  centerLineBegin :: real
  centerLineEnd :: real

definition LunarEclipseImpl_isTotal :: "LunarEclipseImpl \<Rightarrow> bool" where
  "LunarEclipseImpl_isTotal e = (js_and (type e) (EclipseType_value Total) \<noteq> 0)"

definition LunarEclipseImpl_isPartial :: "LunarEclipseImpl \<Rightarrow> bool" where
  "LunarEclipseImpl_isPartial e = (js_and (type e) (EclipseType_value Partial) \<noteq> 0)"

definition LunarEclipseImpl_isPenumbralOnly :: "LunarEclipseImpl \<Rightarrow> bool" where
  "LunarEclipseImpl_isPenumbralOnly e =
     (js_and (type e) (EclipseType_value Penumbral) \<noteq> 0 \<and>
      js_and (type e) (js_or (EclipseType_value Total) (EclipseType_value Partial)) = 0)"

definition getTotalityDuration :: "LunarEclipseImpl \<Rightarrow> real" where
  "getTotalityDuration e =
     (if \<not> LunarEclipseImpl_isTotal e \<or> totalBegin e = 0 \<or> totalEnd e = 0 then 0
      else let duration = (totalEnd e - totalBegin e) * 24
           in if duration > 0 then duration else 0)"

definition getPartialDuration :: "LunarEclipseImpl \<Rightarrow> real" where
  "getPartialDuration e =
     (if partialBegin e = 0 \<or> partialEnd e = 0 then 0
      else let duration = (partialEnd e - partialBegin e) * 24
           in if duration > 0 then duration else 0)"

definition getTotalDuration :: "LunarEclipseImpl \<Rightarrow> real" where
  "getTotalDuration e =
     (if penumbralBegin e = 0 \<or> penumbralEnd e = 0 then 0
      else let duration = (penumbralEnd e - penumbralBegin e) * 24
           in if duration > 0 then duration else 0)"

definition SolarEclipseImpl_isTotal :: "SolarEclipseImpl \<Rightarrow> bool" where
  "SolarEclipseImpl_isTotal e = (js_and (type e) (EclipseType_value Total) \<noteq> 0)"

definition SolarEclipseImpl_isAnnular :: "SolarEclipseImpl \<Rightarrow> bool" where
  "SolarEclipseImpl_isAnnular e = (js_and (type e) (EclipseType_value Annular) \<noteq> 0)"

definition SolarEclipseImpl_isHybrid :: "SolarEclipseImpl \<Rightarrow> bool" where
  "SolarEclipseImpl_isHybrid e = (js_and (type e) (EclipseType_value AnnularTotal) \<noteq> 0)"

definition SolarEclipseImpl_isPartial :: "SolarEclipseImpl \<Rightarrow> bool" where
  "SolarEclipseImpl_isPartial e = (js_and (type e) (EclipseType_value Partial) \<noteq> 0)"

definition SolarEclipseImpl_isCentral :: "SolarEclipseImpl \<Rightarrow> bool" where
  "SolarEclipseImpl_isCentral e = (js_and (type e) (EclipseType_value Central) \<noteq> 0)"

definition SolarEclipseImpl_isNonCentral :: "SolarEclipseImpl \<Rightarrow> bool" where
  "SolarEclipseImpl_isNonCentral e = (js_and (type e) (EclipseType_value NonCentral) \<noteq> 0)"

text \<open>
  The duration the specification words describe for a phase with boundaries \<open>b\<close> and
  \<open>e\<close>: \<open>(e - b) * 24\<close> hours, 0 when the difference is not positive or a boundary
  is the sentinel 0. The three methods above are compared with it.
\<close>

definition spec_clamped_hours :: "real \<Rightarrow> real \<Rightarrow> real" where
  "spec_clamped_hours b e = (if b = 0 \<or> e = 0 \<or> e - b \<le> 0 then 0 else (e - b) * 24)"

section \<open>The engine and JavaScript errors\<close>

text \<open>
  The astronomy engine is external and unmodified: its entry points are parameters of
  the gateways. An entry point maps its scalar arguments to its return code and to the
  contents it leaves in its output buffers (a buffer of doubles as a function of the
  slot index, the error text as a string). The directory configured with
  \<open>swe_set_ephe_path\<close> is engine state; the gateways only record the calls that set it.
\<close>

record Engine =
  swe_calc_ut :: "real \<Rightarrow> int \<Rightarrow> int \<Rightarrow> int \<times> (nat \<Rightarrow> real) \<times> string"
  swe_lun_eclipse_when :: "real \<Rightarrow> int \<Rightarrow> int \<Rightarrow> int \<Rightarrow> int \<times> (nat \<Rightarrow> real) \<times> string"
  swe_sol_eclipse_when_glob :: "real \<Rightarrow> int \<Rightarrow> int \<Rightarrow> int \<Rightarrow> int \<times> (nat \<Rightarrow> real) \<times> string"
  swe_houses :: "real \<Rightarrow> real \<Rightarrow> real \<Rightarrow> int \<Rightarrow> int \<times> (nat \<Rightarrow> real) \<times> (nat \<Rightarrow> real)"
  swe_julday :: "int \<Rightarrow> int \<Rightarrow> int \<Rightarrow> real \<Rightarrow> int \<Rightarrow> real"
  swe_revjul :: "real \<Rightarrow> int \<Rightarrow> int \<times> int \<times> int \<times> real"
  swe_get_planet_name :: "int \<Rightarrow> string"
  swe_version :: string

text \<open>A thrown JavaScript error: its class and the message it was constructed with.\<close>

datatype js_error = Error string | TypeError string

section \<open>Native addon (the C++ binding)\<close>

text \<open>
  Each wrapper converts its integer arguments with \<open>Int32Value\<close>, calls the engine
  with buffers on its stack, throws when the return code is negative and otherwise
  copies the buffers into fresh arrays. The TypeScript callers below always pass every
  argument, so the wrappers' argument-count checks and defaults are not reached.
\<close>

definition binding_julday :: "Engine \<Rightarrow> int \<Rightarrow> int \<Rightarrow> int \<Rightarrow> real \<Rightarrow> int \<Rightarrow> real" where
  "binding_julday eng y m d h gregflag =
     swe_julday eng (to_int32 y) (to_int32 m) (to_int32 d) h (to_int32 gregflag)"

definition binding_revjul :: "Engine \<Rightarrow> real \<Rightarrow> int \<Rightarrow> int \<times> int \<times> int \<times> real" where
  "binding_revjul eng jd gregflag = swe_revjul eng jd (to_int32 gregflag)"

definition binding_calc_ut :: "Engine \<Rightarrow> real \<Rightarrow> int \<Rightarrow> int \<Rightarrow> js_error + (real list \<times> int)" where
  "binding_calc_ut eng tjd_ut ipl iflag =
     (case swe_calc_ut eng tjd_ut (to_int32 ipl) (to_int32 iflag) of
        (ret, xx, serr) \<Rightarrow>
          if ret < 0 then Inl (Error serr)
          else Inr (map xx [0..<6], ret))"

definition binding_get_planet_name :: "Engine \<Rightarrow> int \<Rightarrow> string" where
  "binding_get_planet_name eng ipl = swe_get_planet_name eng (to_int32 ipl)"

definition binding_lun_eclipse_when ::
    "Engine \<Rightarrow> real \<Rightarrow> int \<Rightarrow> int \<Rightarrow> int \<Rightarrow> js_error + (int \<times> real list)" where
  "binding_lun_eclipse_when eng tjd_start ifl ifltype backward =
     (case swe_lun_eclipse_when eng tjd_start (to_int32 ifl) (to_int32 ifltype)
             (to_int32 backward) of
        (ret, tret, serr) \<Rightarrow>
          if ret < 0 then Inl (Error serr)
          else Inr (ret, map tret [0..<10]))"

definition binding_sol_eclipse_when_glob ::
    "Engine \<Rightarrow> real \<Rightarrow> int \<Rightarrow> int \<Rightarrow> int \<Rightarrow> js_error + (int \<times> real list)" where
  "binding_sol_eclipse_when_glob eng tjd_start ifl ifltype backward =
     (case swe_sol_eclipse_when_glob eng tjd_start (to_int32 ifl) (to_int32 ifltype)
             (to_int32 backward) of
        (ret, tret, serr) \<Rightarrow>
          if ret < 0 then Inl (Error serr)
          else Inr (ret, map tret [0..<10]))"

definition binding_houses ::
    "Engine \<Rightarrow> real \<Rightarrow> real \<Rightarrow> real \<Rightarrow> HouseSystem \<Rightarrow> js_error + (real list \<times> real list)" where
  "binding_houses eng tjd_ut geolat geolon hsys =
     (case swe_houses eng tjd_ut geolat geolon (of_char (HouseSystem_value hsys)) of
        (ret, cusps_buf, ascmc_buf) \<Rightarrow>
          if ret < 0 then Inl (Error ''Failed to calculate houses'')
          else Inr (map cusps_buf [0..<13], map ascmc_buf [0..<10]))"

section \<open>Native gateway (packages/node/src/index.ts)\<close>

text \<open>
  The module-level variable \<open>ephemerisPathSet\<close>, and the arguments of the
  \<open>binding.set_ephe_path\<close> calls made so far, oldest first. The directory
  \<open>getBundledEphemerisPath()\<close> returns depends on where the package is installed and
  is a parameter \<open>bundledPath\<close>.
\<close>

record NodeState =
  ephemerisPathSet :: bool
  set_ephe_path_calls :: "string list"

definition NodeState_initial :: NodeState where
  "NodeState_initial = \<lparr>ephemerisPathSet = False, set_ephe_path_calls = []\<rparr>"

definition binding_set_ephe_path :: "string \<Rightarrow> NodeState \<Rightarrow> NodeState" where
  "binding_set_ephe_path p st = st\<lparr>set_ephe_path_calls := set_ephe_path_calls st @ [p]\<rparr>"

text \<open>The local constant \<open>usingMoshier\<close> of \<open>ensureEphemerisInitialized\<close>.\<close>

definition usingMoshier :: "int \<Rightarrow> bool" where
  "usingMoshier fl = (js_and fl (CalculationFlag_value MoshierEphemeris) \<noteq> 0)"

definition ensureEphemerisInitialized :: "string \<Rightarrow> int \<Rightarrow> NodeState \<Rightarrow> NodeState" where
  "ensureEphemerisInitialized bundledPath fl st =
     (if \<not> ephemerisPathSet st \<and> \<not> usingMoshier fl
      then (binding_set_ephe_path bundledPath st)\<lparr>ephemerisPathSet := True\<rparr>
      else st)"

definition setEphemerisPath :: "string \<Rightarrow> string option \<Rightarrow> NodeState \<Rightarrow> NodeState" where
  "setEphemerisPath bundledPath path st =
     (case path of
        None \<Rightarrow> (binding_set_ephe_path bundledPath st)\<lparr>ephemerisPathSet := True\<rparr>
      | Some p \<Rightarrow> (binding_set_ephe_path p st)\<lparr>ephemerisPathSet := True\<rparr>)"

definition julianDay ::
    "Engine \<Rightarrow> int \<Rightarrow> int \<Rightarrow> int \<Rightarrow> real option \<Rightarrow> CalendarType option \<Rightarrow> real" where
  "julianDay eng y m d h cal =
     binding_julday eng y m d (case h of None \<Rightarrow> 0 | Some x \<Rightarrow> x)
       (CalendarType_value (case cal of None \<Rightarrow> Gregorian | Some c \<Rightarrow> c))"

definition julianDayToDate :: "Engine \<Rightarrow> real \<Rightarrow> CalendarType option \<Rightarrow> DateTimeImpl" where
  "julianDayToDate eng jd cal =
     (let ct = (case cal of None \<Rightarrow> Gregorian | Some c \<Rightarrow> c)
      in case binding_revjul eng jd (CalendarType_value ct) of
           (y, m, d, h) \<Rightarrow>
             \<lparr>year = y, month = m, day = d, hour = h, calendarType = ct\<rparr>)"

definition calculatePosition ::
    "Engine \<Rightarrow> string \<Rightarrow> NodeState \<Rightarrow> real \<Rightarrow> int \<Rightarrow> CalculationFlagInput option
      \<Rightarrow> (js_error + PlanetaryPosition) \<times> NodeState" where
  "calculatePosition eng bundledPath st jd body fl =
     (let normalizedFlags =
            normalizeFlags (case fl of None \<Rightarrow> RawNumber DefaultSwissEphemeris | Some f \<Rightarrow> f);
          st' = ensureEphemerisInitialized bundledPath normalizedFlags st
      in case binding_calc_ut eng jd body normalizedFlags of
           Inl err \<Rightarrow> (Inl err, st')
         | Inr (xx, retFlags) \<Rightarrow>
             (Inr \<lparr>longitude = xx ! 0, latitude = xx ! 1, distance = xx ! 2,
                   longitudeSpeed = xx ! 3, latitudeSpeed = xx ! 4, distanceSpeed = xx ! 5,
                   flags = retFlags\<rparr>, st'))"

definition calculateHouses ::
    "Engine \<Rightarrow> real \<Rightarrow> real \<Rightarrow> real \<Rightarrow> HouseSystem option \<Rightarrow> js_error + HouseData" where
  "calculateHouses eng jd lat lon hs =
     (let hsys = (case hs of None \<Rightarrow> Placidus | Some h \<Rightarrow> h)
      in case binding_houses eng jd lat lon hsys of
           Inl err \<Rightarrow> Inl err
         | Inr (cusps_arr, ascmc) \<Rightarrow>
             Inr \<lparr>cusps = cusps_arr, ascendant = ascmc ! 0, mc = ascmc ! 1, armc = ascmc ! 2,
                  vertex = ascmc ! 3, equatorialAscendant = ascmc ! 4,
                  coAscendant1 = ascmc ! 5, coAscendant2 = ascmc ! 6,
                  polarAscendant = ascmc ! 7, houseSystem = hsys\<rparr>)"

definition findNextLunarEclipse ::
    "Engine \<Rightarrow> string \<Rightarrow> NodeState \<Rightarrow> real \<Rightarrow> CalculationFlagInput option
      \<Rightarrow> EclipseTypeFlagInput option \<Rightarrow> bool option
      \<Rightarrow> (js_error + LunarEclipseImpl) \<times> NodeState" where
  "findNextLunarEclipse eng bundledPath st startJulianDay fl eclipseType backward =
     (let normalizedFlags =
            normalizeFlags (case fl of None \<Rightarrow> NamedFlag SwissEphemeris | Some f \<Rightarrow> f);
          st' = ensureEphemerisInitialized bundledPath normalizedFlags st;
          normalizedEclipseType =
            normalizeEclipseTypes (case eclipseType of None \<Rightarrow> RawType 0 | Some t \<Rightarrow> t);
          bw = (case backward of None \<Rightarrow> False | Some b \<Rightarrow> b)
      in case binding_lun_eclipse_when eng startJulianDay normalizedFlags
                normalizedEclipseType (if bw then 1 else 0) of
           Inl err \<Rightarrow> (Inl err, st')
         | Inr (retFlag, tret) \<Rightarrow>
             (Inr \<lparr>type = retFlag, maximum = tret ! 0, partialBegin = tret ! 1,
                   partialEnd = tret ! 2, totalBegin = tret ! 3, totalEnd = tret ! 4,
                   penumbralBegin = tret ! 5, penumbralEnd = tret ! 6\<rparr>, st'))"

definition findNextSolarEclipse ::
    "Engine \<Rightarrow> string \<Rightarrow> NodeState \<Rightarrow> real \<Rightarrow> CalculationFlagInput option
      \<Rightarrow> EclipseTypeFlagInput option \<Rightarrow> bool option
      \<Rightarrow> (js_error + SolarEclipseImpl) \<times> NodeState" where
  "findNextSolarEclipse eng bundledPath st startJulianDay fl eclipseType backward =
     (let normalizedFlags =
            normalizeFlags (case fl of None \<Rightarrow> NamedFlag SwissEphemeris | Some f \<Rightarrow> f);
          st' = ensureEphemerisInitialized bundledPath normalizedFlags st;
          normalizedEclipseType =
            normalizeEclipseTypes (case eclipseType of None \<Rightarrow> RawType 0 | Some t \<Rightarrow> t);
          bw = (case backward of None \<Rightarrow> False | Some b \<Rightarrow> b)
      in case binding_sol_eclipse_when_glob eng startJulianDay normalizedFlags
                normalizedEclipseType (if bw then 1 else 0) of
           Inl err \<Rightarrow> (Inl err, st')
         | Inr (retFlag, tret) \<Rightarrow>
             (Inr \<lparr>type = retFlag, maximum = tret ! 0, partialBegin = tret ! 1,
                   partialEnd = tret ! 2, centralBegin = tret ! 3, centralEnd = tret ! 4,
                   centerLineBegin = tret ! 5, centerLineEnd = tret ! 6\<rparr>, st'))"

definition getCelestialBodyName :: "Engine \<Rightarrow> int \<Rightarrow> string" where
  "getCelestialBodyName eng body = binding_get_planet_name eng body"

section \<open>Bytecode module: linear memory, allocator and exported wrappers\<close>

text \<open>
  The state of the instantiated Emscripten module, as far as the gateway can observe
  it: the blocks handed out by \<open>_malloc\<close> and not yet given back (address and size),
  what \<open>getValue\<close> reads at an address as a double and as a 32-bit integer, what
  \<open>UTF8ToString\<close> reads at an address, and the directories passed to
  \<open>swe_set_ephe_path_wrap\<close>. The allocator belongs to the Emscripten runtime; the
  model hands out the address just above every live block, so a new block never
  overlaps a live one, and it never fails.
\<close>

record EmscriptenModule =
  allocated :: "(nat \<times> nat) list"
  heap_f64 :: "nat \<Rightarrow> real"
  heap_i32 :: "nat \<Rightarrow> int"
  heap_text :: "nat \<Rightarrow> string"
  wasm_ephe_path_calls :: "string list"

fun heap_top :: "(nat \<times> nat) list \<Rightarrow> nat" where
  "heap_top [] = 0"
| "heap_top ((a, n) # bs) = max (a + n) (heap_top bs)"

definition malloc :: "nat \<Rightarrow> EmscriptenModule \<Rightarrow> nat \<times> EmscriptenModule" where
  "malloc n m =
     (let p = Suc (heap_top (allocated m))
      in (p, m\<lparr>allocated := (p, n) # allocated m\<rparr>))"

definition free :: "nat \<Rightarrow> EmscriptenModule \<Rightarrow> EmscriptenModule" where
  "free p m = m\<lparr>allocated := filter (\<lambda>b. fst b \<noteq> p) (allocated m)\<rparr>"

definition allocateUTF8 :: "string \<Rightarrow> EmscriptenModule \<Rightarrow> nat \<times> EmscriptenModule" where
  "allocateUTF8 str m =
     (case malloc (length str + 1) m of
        (p, m') \<Rightarrow> (p, m'\<lparr>heap_text := (heap_text m')(p := str)\<rparr>))"

definition getValue_double :: "EmscriptenModule \<Rightarrow> nat \<Rightarrow> real" where
  "getValue_double m ptr = heap_f64 m ptr"

definition getValue_i32 :: "EmscriptenModule \<Rightarrow> nat \<Rightarrow> int" where
  "getValue_i32 m ptr = heap_i32 m ptr"

definition UTF8ToString :: "EmscriptenModule \<Rightarrow> nat \<Rightarrow> string" where
  "UTF8ToString m ptr = heap_text m ptr"

text \<open>The engine filling a buffer of \<open>n\<close> doubles that starts at address \<open>base\<close>.\<close>

definition write_doubles ::
    "nat \<Rightarrow> nat \<Rightarrow> (nat \<Rightarrow> real) \<Rightarrow> EmscriptenModule \<Rightarrow> EmscriptenModule" where
  "write_doubles base n buf m =
     m\<lparr>heap_f64 :=
         (\<lambda>a. if base \<le> a \<and> a < base + 8 * n \<and> (a - base) mod 8 = 0
              then buf ((a - base) div 8) else heap_f64 m a)\<rparr>"

text \<open>
  The exported C wrappers (swisseph\_wasm.c), as \<open>ccall\<close> reaches them: integer
  parameters arrive converted to 32 bits, pointer parameters are addresses.
\<close>

definition swe_set_ephe_path_wrap :: "nat \<Rightarrow> EmscriptenModule \<Rightarrow> EmscriptenModule" where
  "swe_set_ephe_path_wrap path m =
     m\<lparr>wasm_ephe_path_calls := wasm_ephe_path_calls m @ [heap_text m path]\<rparr>"

definition swe_julday_wrap :: "Engine \<Rightarrow> int \<Rightarrow> int \<Rightarrow> int \<Rightarrow> real \<Rightarrow> int \<Rightarrow> real" where
  "swe_julday_wrap eng y mo d h gregflag =
     swe_julday eng (to_int32 y) (to_int32 mo) (to_int32 d) h (to_int32 gregflag)"

definition swe_revjul_wrap ::
    "Engine \<Rightarrow> real \<Rightarrow> int \<Rightarrow> nat \<Rightarrow> nat \<Rightarrow> nat \<Rightarrow> nat \<Rightarrow> EmscriptenModule \<Rightarrow> EmscriptenModule" where
  "swe_revjul_wrap eng jd gregflag yp mp dp hp m =
     (case swe_revjul eng jd (to_int32 gregflag) of
        (y, mo, d, h) \<Rightarrow>
          m\<lparr>heap_i32 := (heap_i32 m)(yp := y, mp := mo, dp := d),
            heap_f64 := (heap_f64 m)(hp := h)\<rparr>)"

definition swe_calc_ut_wrap ::
    "Engine \<Rightarrow> real \<Rightarrow> int \<Rightarrow> int \<Rightarrow> nat \<Rightarrow> nat \<Rightarrow> EmscriptenModule \<Rightarrow> int \<times> EmscriptenModule" where
  "swe_calc_ut_wrap eng tjd_ut ipl iflag xx serr m =
     (case swe_calc_ut eng tjd_ut (to_int32 ipl) (to_int32 iflag) of
        (ret, xx_buf, msg) \<Rightarrow>
          (ret, (write_doubles xx 6 xx_buf m)\<lparr>heap_text := (heap_text m)(serr := msg)\<rparr>))"

definition swe_get_planet_name_wrap :: "Engine \<Rightarrow> int \<Rightarrow> string" where
  "swe_get_planet_name_wrap eng ipl = swe_get_planet_name eng (to_int32 ipl)"

definition swe_lun_eclipse_when_wrap ::
    "Engine \<Rightarrow> real \<Rightarrow> int \<Rightarrow> int \<Rightarrow> nat \<Rightarrow> int \<Rightarrow> nat \<Rightarrow> EmscriptenModule
      \<Rightarrow> int \<times> EmscriptenModule" where
  "swe_lun_eclipse_when_wrap eng tjd_start ifl ifltype tret backward serr m =
     (case swe_lun_eclipse_when eng tjd_start (to_int32 ifl) (to_int32 ifltype)
             (to_int32 backward) of
        (ret, tret_buf, msg) \<Rightarrow>
          (ret, (write_doubles tret 10 tret_buf m)\<lparr>heap_text := (heap_text m)(serr := msg)\<rparr>))"

definition swe_sol_eclipse_when_glob_wrap ::
    "Engine \<Rightarrow> real \<Rightarrow> int \<Rightarrow> int \<Rightarrow> nat \<Rightarrow> int \<Rightarrow> nat \<Rightarrow> EmscriptenModule
      \<Rightarrow> int \<times> EmscriptenModule" where
  "swe_sol_eclipse_when_glob_wrap eng tjd_start ifl ifltype tret backward serr m =
     (case swe_sol_eclipse_when_glob eng tjd_start (to_int32 ifl) (to_int32 ifltype)
             (to_int32 backward) of
        (ret, tret_buf, msg) \<Rightarrow>
          (ret, (write_doubles tret 10 tret_buf m)\<lparr>heap_text := (heap_text m)(serr := msg)\<rparr>))"

definition swe_houses_wrap ::
    "Engine \<Rightarrow> real \<Rightarrow> real \<Rightarrow> real \<Rightarrow> int \<Rightarrow> nat \<Rightarrow> nat \<Rightarrow> EmscriptenModule
      \<Rightarrow> int \<times> EmscriptenModule" where
  "swe_houses_wrap eng tjd_ut geolat geolon hsys cp ap m =
     (case swe_houses eng tjd_ut geolat geolon (to_int32 hsys) of
        (ret, cusps_buf, ascmc_buf) \<Rightarrow>
          (ret, write_doubles ap 10 ascmc_buf (write_doubles cp 13 cusps_buf m)))"

definition swe_version_wrap :: "Engine \<Rightarrow> string" where
  "swe_version_wrap eng = swe_version eng"

section \<open>Bytecode-module gateway (packages/browser/src/swisseph-browser.ts)\<close>

record SwissEphemeris =
  module :: "EmscriptenModule option"
  ready :: bool

definition SwissEphemeris_new :: SwissEphemeris where
  "SwissEphemeris_new = \<lparr>module = None, ready = False\<rparr>"

text \<open>
  \<open>init\<close> awaits the module factory; its outcome is the parameter \<open>loaded\<close>
  (\<open>None\<close> when no factory function is found).
\<close>

definition init :: "EmscriptenModule option \<Rightarrow> SwissEphemeris \<Rightarrow> js_error + SwissEphemeris" where
  "init loaded s =
     (if ready s then Inr s
      else case loaded of
             None \<Rightarrow>
               Inl (Error ''Failed to load WASM module: SwissEphModule factory function not found'')
           | Some m \<Rightarrow> Inr (s\<lparr>module := Some m, ready := True\<rparr>))"

definition not_initialized :: js_error where
  "not_initialized = Error ''SwissEphemeris not initialized. Call await swe.init() first.''"

text \<open>
  Every method starts with \<open>this._checkReady()\<close> and then works on \<open>this.module!\<close>
  (or on functions wrapped from it); using a null module is a TypeError of the
  runtime, whose exact text is not modelled. \<open>checkReady_then\<close> is that common
  prologue, followed by the method's body on the module.
\<close>

definition checkReady_then ::
    "SwissEphemeris \<Rightarrow> (EmscriptenModule \<Rightarrow> (js_error + 'a) \<times> EmscriptenModule)
      \<Rightarrow> (js_error + 'a) \<times> SwissEphemeris" where
  "checkReady_then s body =
     (if \<not> ready s then (Inl not_initialized, s)
      else case module s of
             None \<Rightarrow> (Inl (TypeError ''Cannot read properties of null''), s)
           | Some m \<Rightarrow> (case body m of (r, m') \<Rightarrow> (r, s\<lparr>module := Some m'\<rparr>)))"

definition SwissEphemeris_version :: "Engine \<Rightarrow> SwissEphemeris \<Rightarrow> (js_error + string) \<times> SwissEphemeris" where
  "SwissEphemeris_version eng s = checkReady_then s (\<lambda>m. (Inr (swe_version_wrap eng), m))"

definition SwissEphemeris_setEphemerisPath ::
    "SwissEphemeris \<Rightarrow> string \<Rightarrow> (js_error + unit) \<times> SwissEphemeris" where
  "SwissEphemeris_setEphemerisPath s path =
     checkReady_then s (\<lambda>m.
       case allocateUTF8 path m of
         (pathPtr, m1) \<Rightarrow>
           let m2 = swe_set_ephe_path_wrap pathPtr m1;
               m3 = free pathPtr m2
           in (Inr (), m3))"

definition SwissEphemeris_julianDay ::
    "Engine \<Rightarrow> SwissEphemeris \<Rightarrow> int \<Rightarrow> int \<Rightarrow> int \<Rightarrow> real option \<Rightarrow> CalendarType option
      \<Rightarrow> (js_error + real) \<times> SwissEphemeris" where
  "SwissEphemeris_julianDay eng s y mo d h cal =
     checkReady_then s (\<lambda>m.
       (Inr (swe_julday_wrap eng y mo d (case h of None \<Rightarrow> 0 | Some x \<Rightarrow> x)
               (CalendarType_value (case cal of None \<Rightarrow> Gregorian | Some c \<Rightarrow> c))), m))"

definition SwissEphemeris_julianDayToDate ::
    "Engine \<Rightarrow> SwissEphemeris \<Rightarrow> real \<Rightarrow> CalendarType option
      \<Rightarrow> (js_error + DateTimeImpl) \<times> SwissEphemeris" where
  "SwissEphemeris_julianDayToDate eng s jd cal =
     checkReady_then s (\<lambda>m.
       let ct = (case cal of None \<Rightarrow> Gregorian | Some c \<Rightarrow> c)
       in case malloc 4 m of (yearPtr, m1) \<Rightarrow>
          case malloc 4 m1 of (monthPtr, m2) \<Rightarrow>
          case malloc 4 m2 of (dayPtr, m3) \<Rightarrow>
          case malloc 8 m3 of (hourPtr, m4) \<Rightarrow>
            let m5 = swe_revjul_wrap eng jd (CalendarType_value ct)
                       yearPtr monthPtr dayPtr hourPtr m4;
                y = getValue_i32 m5 yearPtr;
                mo = getValue_i32 m5 monthPtr;
                d = getValue_i32 m5 dayPtr;
                h = getValue_double m5 hourPtr;
                m6 = free yearPtr m5;
                m7 = free monthPtr m6;
                m8 = free dayPtr m7;
                m9 = free hourPtr m8
            in (Inr \<lparr>year = y, month = mo, day = d, hour = h, calendarType = ct\<rparr>, m9))"

definition SwissEphemeris_calculatePosition ::
    "Engine \<Rightarrow> SwissEphemeris \<Rightarrow> real \<Rightarrow> int \<Rightarrow> CalculationFlagInput option
      \<Rightarrow> (js_error + PlanetaryPosition) \<times> SwissEphemeris" where
  "SwissEphemeris_calculatePosition eng s jd body fl =
     checkReady_then s (\<lambda>m.
       let normalizedFlags =
             normalizeFlags (case fl of None \<Rightarrow> RawNumber DefaultMoshier | Some f \<Rightarrow> f)
       in case malloc (6 * 8) m of (xxPtr, m1) \<Rightarrow>
          case malloc 256 m1 of (serrPtr, m2) \<Rightarrow>
          case swe_calc_ut_wrap eng jd body normalizedFlags xxPtr serrPtr m2 of
            (retflag, m3) \<Rightarrow>
              if retflag < 0 then
                let error = UTF8ToString m3 serrPtr;
                    m4 = free xxPtr m3;
                    m5 = free serrPtr m4
                in (Inl (Error error), m5)
              else
                let xx = map (\<lambda>i. getValue_double m3 (xxPtr + i * 8)) [0..<6];
                    m4 = free xxPtr m3;
                    m5 = free serrPtr m4
                in (Inr \<lparr>longitude = xx ! 0, latitude = xx ! 1, distance = xx ! 2,
                          longitudeSpeed = xx ! 3, latitudeSpeed = xx ! 4,
                          distanceSpeed = xx ! 5, flags = retflag\<rparr>, m5))"

definition SwissEphemeris_getCelestialBodyName ::
    "Engine \<Rightarrow> SwissEphemeris \<Rightarrow> int \<Rightarrow> (js_error + string) \<times> SwissEphemeris" where
  "SwissEphemeris_getCelestialBodyName eng s body =
     checkReady_then s (\<lambda>m. (Inr (swe_get_planet_name_wrap eng body), m))"

definition SwissEphemeris_findNextLunarEclipse ::
    "Engine \<Rightarrow> SwissEphemeris \<Rightarrow> real \<Rightarrow> CalculationFlagInput option
      \<Rightarrow> EclipseTypeFlagInput option \<Rightarrow> bool option
      \<Rightarrow> (js_error + LunarEclipseImpl) \<times> SwissEphemeris" where
  "SwissEphemeris_findNextLunarEclipse eng s startJulianDay fl eclipseType backward =
     checkReady_then s (\<lambda>m.
       let normalizedFlags =
             normalizeFlags (case fl of None \<Rightarrow> NamedFlag MoshierEphemeris | Some f \<Rightarrow> f);
           normalizedEclipseType =
             normalizeEclipseTypes (case eclipseType of None \<Rightarrow> RawType 0 | Some t \<Rightarrow> t);
           bw = (case backward of None \<Rightarrow> False | Some b \<Rightarrow> b)
       in case malloc (10 * 8) m of (tretPtr, m1) \<Rightarrow>
          case malloc 256 m1 of (serrPtr, m2) \<Rightarrow>
          case swe_lun_eclipse_when_wrap eng startJulianDay normalizedFlags
                 normalizedEclipseType tretPtr (if bw then 1 else 0) serrPtr m2 of
            (retflag, m3) \<Rightarrow>
              if retflag < 0 then
                let error = UTF8ToString m3 serrPtr;
                    m4 = free tretPtr m3;
                    m5 = free serrPtr m4
                in (Inl (Error error), m5)
              else
                let tret = map (\<lambda>i. getValue_double m3 (tretPtr + i * 8)) [0..<10];
                    m4 = free tretPtr m3;
                    m5 = free serrPtr m4
                in (Inr \<lparr>type = retflag, maximum = tret ! 0, partialBegin = tret ! 1,
                          partialEnd = tret ! 2, totalBegin = tret ! 3, totalEnd = tret ! 4,
                          penumbralBegin = tret ! 5, penumbralEnd = tret ! 6\<rparr>, m5))"

definition SwissEphemeris_findNextSolarEclipse ::
    "Engine \<Rightarrow> SwissEphemeris \<Rightarrow> real \<Rightarrow> CalculationFlagInput option
      \<Rightarrow> EclipseTypeFlagInput option \<Rightarrow> bool option
      \<Rightarrow> (js_error + SolarEclipseImpl) \<times> SwissEphemeris" where
  "SwissEphemeris_findNextSolarEclipse eng s startJulianDay fl eclipseType backward =
     checkReady_then s (\<lambda>m.
       let normalizedFlags =
             normalizeFlags (case fl of None \<Rightarrow> NamedFlag MoshierEphemeris | Some f \<Rightarrow> f);
           normalizedEclipseType =
             normalizeEclipseTypes (case eclipseType of None \<Rightarrow> RawType 0 | Some t \<Rightarrow> t);
           bw = (case backward of None \<Rightarrow> False | Some b \<Rightarrow> b)
       in case malloc (10 * 8) m of (tretPtr, m1) \<Rightarrow>
          case malloc 256 m1 of (serrPtr, m2) \<Rightarrow>
          case swe_sol_eclipse_when_glob_wrap eng startJulianDay normalizedFlags
                 normalizedEclipseType tretPtr (if bw then 1 else 0) serrPtr m2 of
            (retflag, m3) \<Rightarrow>
              if retflag < 0 then
                let error = UTF8ToString m3 serrPtr;
                    m4 = free tretPtr m3;
                    m5 = free serrPtr m4
                in (Inl (Error error), m5)
              else
                let tret = map (\<lambda>i. getValue_double m3 (tretPtr + i * 8)) [0..<10];
                    m4 = free tretPtr m3;
                    m5 = free serrPtr m4
                in (Inr \<lparr>type = retflag, maximum = tret ! 0, partialBegin = tret ! 1,
                          partialEnd = tret ! 2, centralBegin = tret ! 3, centralEnd = tret ! 4,
                          centerLineBegin = tret ! 5, centerLineEnd = tret ! 6\<rparr>, m5))"

text \<open>The return code of \<open>swe_houses_wrap\<close> is received by \<open>ccall\<close> and not looked at.\<close>

definition SwissEphemeris_calculateHouses ::
    "Engine \<Rightarrow> SwissEphemeris \<Rightarrow> real \<Rightarrow> real \<Rightarrow> real \<Rightarrow> HouseSystem option
      \<Rightarrow> (js_error + HouseData) \<times> SwissEphemeris" where
  "SwissEphemeris_calculateHouses eng s jd lat lon hs =
     checkReady_then s (\<lambda>m.
       let hsys = (case hs of None \<Rightarrow> Placidus | Some h \<Rightarrow> h)
       in case malloc (13 * 8) m of (cuspsPtr, m1) \<Rightarrow>
          case malloc (10 * 8) m1 of (ascmcPtr, m2) \<Rightarrow>
            let hsysCode = of_char (HouseSystem_value hsys);
                m3 = snd (swe_houses_wrap eng jd lat lon hsysCode cuspsPtr ascmcPtr m2);
                cusps_arr = map (\<lambda>i. getValue_double m3 (cuspsPtr + i * 8)) [0..<13];
                ascmc = map (\<lambda>i. getValue_double m3 (ascmcPtr + i * 8)) [0..<10];
                m4 = free cuspsPtr m3;
                m5 = free ascmcPtr m4
            in (Inr \<lparr>cusps = cusps_arr, ascendant = ascmc ! 0, mc = ascmc ! 1,
                      armc = ascmc ! 2, vertex = ascmc ! 3, equatorialAscendant = ascmc ! 4,
                      coAscendant1 = ascmc ! 5, coAscendant2 = ascmc ! 6,
                      polarAscendant = ascmc ! 7, houseSystem = hsys\<rparr>, m5))"

text \<open>The blocks of linear memory a gateway instance holds allocated.\<close>

definition live_blocks :: "SwissEphemeris \<Rightarrow> (nat \<times> nat) list" where
  "live_blocks s = (case module s of None \<Rightarrow> [] | Some m \<Rightarrow> allocated m)"

section \<open>Stand-ins for worked examples\<close>

text \<open>
  A stand-in engine for the worked examples below: it rejects negative body ids, start
  days below 0 and latitudes above 66 with a negative code, echoes the flag bitmask it
  was given as its return code for positions, and fills its buffers with simple values.
  \<open>fresh_module\<close> is a newly instantiated module with nothing allocated.
\<close>

definition sample_engine :: Engine where
  "sample_engine =
     \<lparr>swe_calc_ut = (\<lambda>tjd ipl iflag.
         if ipl < 0 then (- 1, (\<lambda>i. 0), ''illegal planet number'')
         else (iflag, (\<lambda>i. tjd + real i), [])),
      swe_lun_eclipse_when = (\<lambda>tjd ifl ifltype backward.
         if tjd < 0 then (- 1, (\<lambda>i. 0), ''eclipse search out of range'')
         else (4, (\<lambda>i. tjd + real i), [])),
      swe_sol_eclipse_when_glob = (\<lambda>tjd ifl ifltype backward.
         if tjd < 0 then (- 1, (\<lambda>i. 0), ''eclipse search out of range'')
         else (5, (\<lambda>i. tjd + real i), [])),
      swe_houses = (\<lambda>tjd lat lon hsys.
         (if 66 < lat then - 1 else 0, (\<lambda>i. 30 * real i), (\<lambda>i. lon + real i))),
      swe_julday = (\<lambda>y mo d h g. 2454162.5 + h / 24),
      swe_revjul = (\<lambda>jd g. (2007, 3, 3, 0)),
      swe_get_planet_name = (\<lambda>ipl. ''Sun''),
      swe_version = ''2.10.03''\<rparr>"

definition fresh_module :: EmscriptenModule where
  "fresh_module =
     \<lparr>allocated = [], heap_f64 = (\<lambda>a. 0), heap_i32 = (\<lambda>a. 0), heap_text = (\<lambda>a. []),
      wasm_ephe_path_calls = []\<rparr>"

definition ready_instance :: SwissEphemeris where
  "ready_instance = \<lparr>module = Some fresh_module, ready = True\<rparr>"

section \<open>Properties of the flag utilities\<close>

lemma js_or_zero_flag: "js_or 0 (CalculationFlag_value f) = CalculationFlag_value f"
  by (cases f) (simp_all add: js_or_def)

lemma flags_foldl_or_in:
  "cf_flags (foldl CalculationFlags_or_in b fs) =
     foldl js_or (cf_flags b) (map CalculationFlag_value fs)"
  by (induction fs arbitrary: b) (simp_all add: CalculationFlags_or_in_def)

lemma flags_add_each:
  "cf_flags (add_each b fs) = foldl js_or (cf_flags b) (map CalculationFlag_value fs)"
  unfolding add_each_def
  by (induction fs arbitrary: b) (simp_all add: CalculationFlags_or_in_def)

lemma foldl_or_from_zero:
  "foldl js_or 0 (map CalculationFlag_value fs) = raw_or fs"
  by (cases fs) (simp_all add: js_or_zero_flag)

lemma bit_js_or:
  assumes "k < 31"
  shows "bit (js_or a b) k \<longleftrightarrow> bit a k \<or> bit b k"
  using assms by (simp add: js_or_def bit_sint_iff bit_or_iff bit_word_of_int_iff)

lemma bit_foldl_js_or:
  assumes "k < 31"
  shows "bit (foldl js_or a vs) k \<longleftrightarrow> bit a k \<or> (\<exists>v\<in>set vs. bit v k)"
  using assms by (induction vs arbitrary: a) (auto simp add: bit_js_or)

lemma bit_raw_or:
  assumes "k < 31"
  shows "bit (raw_or fs) k \<longleftrightarrow> (\<exists>f\<in>set fs. bit (CalculationFlag_value f) k)"
  using assms by (simp flip: foldl_or_from_zero add: bit_foldl_js_or)

text \<open>
  C1. Every finite list of named calculation options normalises to one and the same
  integer, the value of the expression \<open>f1 | ... | fn\<close>: \<open>normalizeFlags\<close> returns it
  for that raw integer, for the array and for a builder filled by one \<open>add\<close> call per
  option, \<open>toNumber\<close> returns it for that builder and for \<open>CalculationFlags.from\<close>, and
  for a single option it is the option's own value. Below bit 31 that integer has
  exactly the bits of the listed options.
\<close>

theorem normalizeFlags_shapes_agree:
  "normalizeFlags (RawNumber (raw_or fs)) = raw_or fs
   \<and> normalizeFlags (FlagArray fs) = raw_or fs
   \<and> normalizeFlags (FlagBuilder (add_each (CalculationFlags_new None) fs)) = raw_or fs
   \<and> CalculationFlags_toNumber (add_each (CalculationFlags_new None) fs) = raw_or fs
   \<and> CalculationFlags_toNumber (CalculationFlags_from fs) = raw_or fs
   \<and> normalizeFlags (NamedFlag f) = raw_or [f]
   \<and> normalizeFlags (FlagArray [f]) = CalculationFlag_value f
   \<and> normalizeFlags (FlagBuilder (add_each (CalculationFlags_new None) [f]))
       = CalculationFlag_value f
   \<and> raw_or [f] = CalculationFlag_value f
   \<and> (k < 31 \<longrightarrow>
        bit (raw_or fs) k = (\<exists>g\<in>set fs. bit (CalculationFlag_value g) k))"
proof -
  have arr: "\<And>gs. CalculationFlags_toNumber (CalculationFlags_from gs) = raw_or gs"
    by (simp add: CalculationFlags_toNumber_def CalculationFlags_from_def
        CalculationFlags_new_def flags_foldl_or_in foldl_or_from_zero)
  have bld: "\<And>gs. CalculationFlags_toNumber (add_each (CalculationFlags_new None) gs) = raw_or gs"
    by (simp add: CalculationFlags_toNumber_def CalculationFlags_new_def flags_add_each
        foldl_or_from_zero)
  show ?thesis
    by (simp add: arr bld bit_raw_or)
qed

theorem normalizeFlags_shapes_agree_witness:
  "normalizeFlags (RawNumber (raw_or [SwissEphemeris, Speed])) = 258
   \<and> normalizeFlags (FlagArray [SwissEphemeris, Speed]) = 258
   \<and> normalizeFlags (FlagBuilder (add_each (CalculationFlags_new None) [SwissEphemeris, Speed]))
       = 258
   \<and> CalculationFlags_toNumber (add_each (CalculationFlags_new None) [SwissEphemeris, Speed])
       = 258
   \<and> normalizeFlags (NamedFlag Speed) = 256
   \<and> (8::nat) < 31
   \<and> bit (raw_or [SwissEphemeris, Speed]) 8"
proof -
  have r: "raw_or [SwissEphemeris, Speed] = 258"
    by (simp add: js_or_def)
  have b: "bit (CalculationFlag_value Speed) 8"
    by (simp add: bit_iff_odd)
  show ?thesis
    using r b normalizeFlags_shapes_agree [of "[SwissEphemeris, Speed]" Speed 8]
    by simp
qed

lemma flag_value_pow2: "\<exists>k<21. CalculationFlag_value f = 2 ^ k"
proof (cases f)
  case JPLEphemeris then show ?thesis by (intro exI[of _ 0]) simp next
  case SwissEphemeris then show ?thesis by (intro exI[of _ 1]) simp next
  case MoshierEphemeris then show ?thesis by (intro exI[of _ 2]) simp next
  case Heliocentric then show ?thesis by (intro exI[of _ 3]) simp next
  case TruePositions then show ?thesis by (intro exI[of _ 4]) simp next
  case J2000 then show ?thesis by (intro exI[of _ 5]) simp next
  case NoNutation then show ?thesis by (intro exI[of _ 6]) simp next
  case Speed3 then show ?thesis by (intro exI[of _ 7]) simp next
  case Speed then show ?thesis by (intro exI[of _ 8]) simp next
  case NoGravitationalDeflection then show ?thesis by (intro exI[of _ 9]) simp next
  case NoAberration then show ?thesis by (intro exI[of _ 10]) simp next
  case Equatorial then show ?thesis by (intro exI[of _ 11]) simp next
  case XYZ then show ?thesis by (intro exI[of _ 12]) simp next
  case Radians then show ?thesis by (intro exI[of _ 13]) simp next
  case Barycentric then show ?thesis by (intro exI[of _ 14]) simp next
  case Topocentric then show ?thesis by (intro exI[of _ 15]) simp next
  case Sidereal then show ?thesis by (intro exI[of _ 16]) simp next
  case ICRS then show ?thesis by (intro exI[of _ 17]) simp next
  case DpsidepsIAU1980 then show ?thesis by (intro exI[of _ 18]) simp next
  case JPLHorizons then show ?thesis by (intro exI[of _ 19]) simp next
  case JPLHorizonsApprox then show ?thesis by (intro exI[of _ 20]) simp
qed

lemma word_and_single_bit:
  fixes w :: "32 word"
  shows "w AND 2 ^ k = 0 \<or> w AND 2 ^ k = 2 ^ k"
proof (cases "bit w k")
  case True
  have "w AND 2 ^ k = 2 ^ k"
    by (rule bit_word_eqI) (use True in \<open>auto simp add: bit_simps\<close>)
  then show ?thesis by simp
next
  case False
  then have "w AND 2 ^ k = 0"
    by (simp add: and_exp_eq_0_iff_not_bit)
  then show ?thesis by simp
qed

lemma word_and_not_self_iff:
  fixes w v :: "32 word"
  shows "(w AND NOT v = w) \<longleftrightarrow> (w AND v = 0)"
proof
  assume h: "w AND NOT v = w"
  have "w AND v = (w AND NOT v) AND v" by (simp add: h)
  also have "\<dots> = 0" by (rule bit_word_eqI) (auto simp add: bit_simps)
  finally show "w AND v = 0" .
next
  assume h: "w AND v = 0"
  show "w AND NOT v = w"
    by (rule bit_word_eqI) (use h in \<open>auto simp add: bit_simps bit_eq_iff\<close>)
qed

lemma word_or_and_not: "((w::32 word) OR v) AND NOT v = w AND NOT v"
  by (rule bit_word_eqI) (auto simp add: bit_simps)

lemma sint_of_is_int32: "is_int32 n \<Longrightarrow> sint (word_of_int n :: 32 word) = n"
  by (simp add: is_int32_def signed_take_bit_int_eq_self sint_sbintrunc')

lemma sint_eq_iff32: "sint (a::32 word) = sint b \<longleftrightarrow> a = b"
  by (auto intro: signed_word_eqI)

lemma add_twice:
  "CalculationFlags_toNumber (CalculationFlags_add (CalculationFlags_add b (One x)) (One x))
     = CalculationFlags_toNumber (CalculationFlags_add b (One x))"
  by (simp add: CalculationFlags_toNumber_def CalculationFlags_or_in_def js_or_def ac_simps)

lemma add_then_remove:
  "CalculationFlags_toNumber (CalculationFlags_remove (CalculationFlags_add b (One x)) (One x))
     = CalculationFlags_toNumber (CalculationFlags_remove b (One x))"
  by (simp add: CalculationFlags_toNumber_def CalculationFlags_or_in_def
      CalculationFlags_and_out_def js_or_def js_and_def js_not_def word_or_and_not)

lemma add_then_remove_restores_iff:
  assumes "is_int32 (cf_flags b)"
  shows "CalculationFlags_toNumber (CalculationFlags_remove (CalculationFlags_add b (One x)) (One x))
           = CalculationFlags_toNumber b
         \<longleftrightarrow> \<not> CalculationFlags_has b x"
proof -
  obtain k where k: "k < 21" "CalculationFlag_value x = 2 ^ k"
    using flag_value_pow2 by blast
  define w :: "32 word" where "w = word_of_int (cf_flags b)"
  have fb: "cf_flags b = sint w"
    using assms by (simp add: w_def sint_of_is_int32)
  have v: "(word_of_int (CalculationFlag_value x) :: 32 word) = 2 ^ k"
    by (simp add: k)
  have "(2::int) ^ k \<le> 2 ^ 20"
    using k by (intro power_increasing) auto
  moreover have "(- 2147483648::int) \<le> 2 ^ k"
    by (rule order_trans[of _ 0]) simp_all
  ultimately have "is_int32 (CalculationFlag_value x)"
    by (simp add: is_int32_def k)
  then have vs: "CalculationFlag_value x = sint (2 ^ k :: 32 word)"
    using sint_of_is_int32[of "CalculationFlag_value x"] v by simp
  have ne: "(2 ^ k :: 32 word) \<noteq> 0" using k by simp
  have lhs: "CalculationFlags_toNumber
               (CalculationFlags_remove (CalculationFlags_add b (One x)) (One x))
             = sint (w AND NOT (2 ^ k))"
    by (simp add: CalculationFlags_toNumber_def CalculationFlags_or_in_def
        CalculationFlags_and_out_def js_or_def js_and_def js_not_def word_or_and_not v
        flip: w_def)
  have has: "CalculationFlags_has b x \<longleftrightarrow> w AND 2 ^ k = 2 ^ k"
    unfolding CalculationFlags_has_def js_and_def v w_def[symmetric]
    by (subst vs) (simp add: sint_eq_iff32)
  have "sint (w AND NOT (2 ^ k)) = sint w \<longleftrightarrow> w AND 2 ^ k = 0"
    by (simp add: word_and_not_self_iff sint_eq_iff32)
  also have "\<dots> \<longleftrightarrow> \<not> (w AND 2 ^ k = 2 ^ k)"
    using word_and_single_bit[of w k] ne by auto
  finally have main:
    "sint (w AND NOT (2 ^ k)) = sint w \<longleftrightarrow> \<not> (w AND 2 ^ k = 2 ^ k)" .
  have rhs: "CalculationFlags_toNumber b = sint w"
    by (simp add: CalculationFlags_toNumber_def fb)
  show ?thesis
    unfolding lhs has rhs by (rule main)
qed

text \<open>
  Every state a builder can reach holds a 32-bit value: the constructor starts at 0 and
  every later value is the result of a bitwise operator.
\<close>

lemma is_int32_sint: "is_int32 (sint (w :: 32 word))"
  using sint_ge[of w] sint_lt[of w] by (simp add: is_int32_def)

lemma builder_reachable_int32:
  "is_int32 (cf_flags (CalculationFlags_new None))"
  "is_int32 (cf_flags (CalculationFlags_or_in b f))"
  "is_int32 (cf_flags (CalculationFlags_and_out b f))"
  by (simp_all add: CalculationFlags_new_def CalculationFlags_or_in_def
      CalculationFlags_and_out_def js_or_def js_and_def is_int32_sint)
  (simp add: is_int32_def)

text \<open>
  C7 (as the code has it). For every builder state and every flag \<open>x\<close>, adding \<open>x\<close>
  twice gives the integer of adding it once. Adding \<open>x\<close> and then removing it gives the
  integer of removing \<open>x\<close> alone; on a builder holding a 32-bit value this is the
  integer the builder had before exactly when \<open>x\<close> was not set in it.
\<close>

theorem builder_add_remove:
  "CalculationFlags_toNumber (CalculationFlags_add (CalculationFlags_add b (One x)) (One x))
     = CalculationFlags_toNumber (CalculationFlags_add b (One x))
   \<and> CalculationFlags_toNumber
        (CalculationFlags_remove (CalculationFlags_add b (One x)) (One x))
      = CalculationFlags_toNumber (CalculationFlags_remove b (One x))
   \<and> (is_int32 (cf_flags b) \<longrightarrow>
        (CalculationFlags_toNumber
           (CalculationFlags_remove (CalculationFlags_add b (One x)) (One x))
         = CalculationFlags_toNumber b
        \<longleftrightarrow> \<not> CalculationFlags_has b x))"
  using add_twice add_then_remove add_then_remove_restores_iff by blast

theorem builder_add_remove_witness:
  "is_int32 (cf_flags (CalculationFlags_from [SwissEphemeris]))
   \<and> \<not> CalculationFlags_has (CalculationFlags_from [SwissEphemeris]) Speed
   \<and> CalculationFlags_toNumber
        (CalculationFlags_add (CalculationFlags_from [SwissEphemeris]) (One Speed)) = 258
   \<and> CalculationFlags_toNumber
        (CalculationFlags_add
           (CalculationFlags_add (CalculationFlags_from [SwissEphemeris]) (One Speed))
           (One Speed)) = 258
   \<and> CalculationFlags_toNumber
        (CalculationFlags_remove
           (CalculationFlags_add (CalculationFlags_from [SwissEphemeris]) (One Speed))
           (One Speed)) = 2"
proof -
  have v: "is_int32 (cf_flags (CalculationFlags_from [SwissEphemeris]))"
    by (simp add: CalculationFlags_from_def CalculationFlags_new_def
        CalculationFlags_or_in_def js_or_def is_int32_def)
  have h: "\<not> CalculationFlags_has (CalculationFlags_from [SwissEphemeris]) Speed"
    by (simp add: CalculationFlags_from_def CalculationFlags_new_def
        CalculationFlags_or_in_def CalculationFlags_has_def js_or_def js_and_def)
  have a: "CalculationFlags_toNumber
        (CalculationFlags_add (CalculationFlags_from [SwissEphemeris]) (One Speed)) = 258"
    by (simp add: CalculationFlags_from_def CalculationFlags_new_def
        CalculationFlags_or_in_def CalculationFlags_toNumber_def js_or_def)
  have s: "CalculationFlags_toNumber (CalculationFlags_from [SwissEphemeris]) = 2"
    by (simp add: CalculationFlags_from_def CalculationFlags_new_def
        CalculationFlags_or_in_def CalculationFlags_toNumber_def js_or_def)
  show ?thesis
    using builder_add_remove [of "CalculationFlags_from [SwissEphemeris]" Speed] v h a s
    by simp
qed

text \<open>
  The sentence as the specification has it fails on a builder that already holds the
  flag: \<open>add(Speed); remove(Speed)\<close> on a builder made from \<open>Speed\<close> leaves 0, not the
  256 it held.
\<close>

theorem builder_add_remove_counterexample:
  "CalculationFlags_toNumber
     (CalculationFlags_remove
        (CalculationFlags_add (CalculationFlags_from [Speed]) (One Speed)) (One Speed)) = 0
   \<and> CalculationFlags_toNumber (CalculationFlags_from [Speed]) = 256"
  by (simp add: CalculationFlags_from_def CalculationFlags_new_def CalculationFlags_or_in_def
      CalculationFlags_and_out_def CalculationFlags_toNumber_def js_or_def js_and_def js_not_def)

section \<open>Properties of the eclipse records\<close>

lemma getPartialDuration_spec:
  "getPartialDuration e = spec_clamped_hours (partialBegin e) (partialEnd e)"
  by (simp add: getPartialDuration_def spec_clamped_hours_def Let_def)

lemma getTotalDuration_spec:
  "getTotalDuration e = spec_clamped_hours (penumbralBegin e) (penumbralEnd e)"
  by (simp add: getTotalDuration_def spec_clamped_hours_def Let_def)

lemma getTotalityDuration_spec:
  "getTotalityDuration e =
     (if LunarEclipseImpl_isTotal e then spec_clamped_hours (totalBegin e) (totalEnd e) else 0)"
  by (simp add: getTotalityDuration_def spec_clamped_hours_def Let_def)

lemma spec_clamped_hours_nonneg: "0 \<le> spec_clamped_hours b e"
  by (simp add: spec_clamped_hours_def)

lemma spec_clamped_hours_sentinel: "b = 0 \<or> e = 0 \<Longrightarrow> spec_clamped_hours b e = 0"
  by (auto simp add: spec_clamped_hours_def)

text \<open>
  C2 (as the code has it). \<open>getPartialDuration\<close> and \<open>getTotalDuration\<close> return
  \<open>(end - begin) * 24\<close> for their phase, 0 when the difference is not positive or a
  boundary is 0; \<open>getTotalityDuration\<close> returns the same for the total phase when the
  type has the Total bit and 0 when it has not. Every duration is at least 0, and is 0
  whenever one of its boundaries is 0.
\<close>

theorem lunar_durations:
  "getPartialDuration e = spec_clamped_hours (partialBegin e) (partialEnd e)
   \<and> getTotalDuration e = spec_clamped_hours (penumbralBegin e) (penumbralEnd e)
   \<and> getTotalityDuration e =
       (if LunarEclipseImpl_isTotal e then spec_clamped_hours (totalBegin e) (totalEnd e)
        else 0)
   \<and> 0 \<le> getTotalityDuration e \<and> 0 \<le> getPartialDuration e \<and> 0 \<le> getTotalDuration e
   \<and> (totalBegin e = 0 \<or> totalEnd e = 0 \<longrightarrow> getTotalityDuration e = 0)
   \<and> (partialBegin e = 0 \<or> partialEnd e = 0 \<longrightarrow> getPartialDuration e = 0)
   \<and> (penumbralBegin e = 0 \<or> penumbralEnd e = 0 \<longrightarrow> getTotalDuration e = 0)"
  by (simp add: getPartialDuration_spec getTotalDuration_spec getTotalityDuration_spec
      spec_clamped_hours_nonneg spec_clamped_hours_sentinel)

theorem lunar_durations_witness:
  "getPartialDuration
     \<lparr>type = 16, maximum = 2460000, partialBegin = 2459999, partialEnd = 2460001,
      totalBegin = 0, totalEnd = 0, penumbralBegin = 2459998, penumbralEnd = 2460002\<rparr> = 48
   \<and> getTotalDuration
     \<lparr>type = 16, maximum = 2460000, partialBegin = 2459999, partialEnd = 2460001,
      totalBegin = 0, totalEnd = 0, penumbralBegin = 2459998, penumbralEnd = 2460002\<rparr> = 96
   \<and> getTotalityDuration
     \<lparr>type = 16, maximum = 2460000, partialBegin = 2459999, partialEnd = 2460001,
      totalBegin = 0, totalEnd = 0, penumbralBegin = 2459998, penumbralEnd = 2460002\<rparr> = 0"
  using lunar_durations [of
     "\<lparr>type = 16, maximum = 2460000, partialBegin = 2459999, partialEnd = 2460001,
      totalBegin = 0, totalEnd = 0, penumbralBegin = 2459998, penumbralEnd = 2460002\<rparr>"]
  by (simp add: spec_clamped_hours_def)

text \<open>
  The sentence as the specification has it fails for \<open>getTotalityDuration\<close>: on a
  record whose type is Partial only and whose total phase runs one day, the method
  returns 0 where \<open>(end - begin) * 24\<close> is 24.
\<close>

theorem lunar_durations_counterexample:
  "getTotalityDuration
     \<lparr>type = 16, maximum = 2460000, partialBegin = 2459999, partialEnd = 2460002,
      totalBegin = 2460000, totalEnd = 2460001,
      penumbralBegin = 2459998, penumbralEnd = 2460003\<rparr> = 0
   \<and> spec_clamped_hours 2460000 2460001 = 24"
  by (simp add: getTotalityDuration_def LunarEclipseImpl_isTotal_def js_and_def
      spec_clamped_hours_def)

text \<open>
  C10. On a lunar eclipse record whose type lacks the Total bit,
  \<open>getTotalityDuration\<close> returns 0, whatever \<open>totalBegin\<close> and \<open>totalEnd\<close> hold.
\<close>

theorem totality_gated_on_type:
  "js_and (type e) (EclipseType_value Total) = 0 \<Longrightarrow> getTotalityDuration e = 0"
  by (simp add: getTotalityDuration_def LunarEclipseImpl_isTotal_def)

theorem totality_gated_on_type_witness:
  "js_and (type
      \<lparr>type = 16, maximum = 2460000, partialBegin = 2459999, partialEnd = 2460002,
       totalBegin = 2460000, totalEnd = 2460001,
       penumbralBegin = 2459998, penumbralEnd = 2460003 :: real\<rparr>) (EclipseType_value Total) = 0
   \<and> (0::real) < 2460001 - 2460000
   \<and> getTotalityDuration
      \<lparr>type = 16, maximum = 2460000, partialBegin = 2459999, partialEnd = 2460002,
       totalBegin = 2460000, totalEnd = 2460001,
       penumbralBegin = 2459998, penumbralEnd = 2460003\<rparr> = 0"
proof -
  have h: "js_and (type
      \<lparr>type = 16, maximum = 2460000, partialBegin = 2459999, partialEnd = 2460002,
       totalBegin = 2460000, totalEnd = 2460001,
       penumbralBegin = 2459998, penumbralEnd = 2460003 :: real\<rparr>) (EclipseType_value Total) = 0"
    by (simp add: js_and_def)
  show ?thesis
    using h totality_gated_on_type [OF h] by simp
qed

lemma js_and_single_bit:
  assumes "k < 32"
  shows "js_and t (2 ^ k) \<noteq> 0 \<longleftrightarrow> bit t k"
proof -
  have "js_and t (2 ^ k) = 0 \<longleftrightarrow> (word_of_int t :: 32 word) AND 2 ^ k = 0"
    by (simp add: js_and_def signed_eq_0_iff)
  also have "\<dots> \<longleftrightarrow> \<not> bit (word_of_int t :: 32 word) k"
    by (simp add: and_exp_eq_0_iff_not_bit)
  also have "\<dots> \<longleftrightarrow> \<not> bit t k"
    using assms by (simp add: bit_word_of_int_iff)
  finally show ?thesis by simp
qed

lemma js_and_bits:
  "js_and t 1 \<noteq> 0 \<longleftrightarrow> bit t 0"
  "js_and t 2 \<noteq> 0 \<longleftrightarrow> bit t 1"
  "js_and t 4 \<noteq> 0 \<longleftrightarrow> bit t 2"
  "js_and t 8 \<noteq> 0 \<longleftrightarrow> bit t 3"
  "js_and t 16 \<noteq> 0 \<longleftrightarrow> bit t 4"
  "js_and t 32 \<noteq> 0 \<longleftrightarrow> bit t 5"
  "js_and t 64 \<noteq> 0 \<longleftrightarrow> bit t 6"
  using js_and_single_bit[of 0 t] js_and_single_bit[of 1 t] js_and_single_bit[of 2 t]
    js_and_single_bit[of 3 t] js_and_single_bit[of 4 t] js_and_single_bit[of 5 t]
    js_and_single_bit[of 6 t]
  by simp_all

lemma js_and_total_or_partial:
  "js_and t (js_or 4 16) = 0 \<longleftrightarrow> \<not> bit t 2 \<and> \<not> bit t 4"
proof -
  have m: "js_or 4 16 = 20" by (simp add: js_or_def)
  have s: "(20 :: 32 word) = 2 ^ 2 OR 2 ^ 4" by simp
  have "js_and t 20 = 0 \<longleftrightarrow> (word_of_int t :: 32 word) AND 20 = 0"
    by (simp add: js_and_def signed_eq_0_iff)
  also have "\<dots> \<longleftrightarrow> (word_of_int t :: 32 word) AND 2 ^ 2 = 0
                    \<and> (word_of_int t :: 32 word) AND 2 ^ 4 = 0"
    unfolding s by (simp only: bit.conj_disj_distrib or_eq_0_iff)
  also have "\<dots> \<longleftrightarrow> \<not> bit t 2 \<and> \<not> bit t 4"
    by (simp only: and_exp_eq_0_iff_not_bit bit_word_of_int_iff) simp
  finally show ?thesis by (simp add: m)
qed

text \<open>
  C3 (as the code has it). Every derived predicate of a lunar or solar eclipse record
  reports its phase exactly when the corresponding bit of the type bitmask is set:
  Central is bit 0, NonCentral bit 1, Total bit 2, Annular bit 3, Partial bit 4,
  AnnularTotal bit 5 and Penumbral bit 6, and \<open>isPenumbralOnly\<close> asks for Penumbral
  set with Total and Partial clear. No predicate reads a time-boundary slot: two records
  with the same type give the same answers, the sentinel 0 in any slot included.
\<close>

theorem predicates_test_type_bits:
  fixes e e' :: LunarEclipseImpl and s s' :: SolarEclipseImpl
  shows "EclipseType_value Central = 2 ^ 0 \<and> EclipseType_value NonCentral = 2 ^ 1
       \<and> EclipseType_value Total = 2 ^ 2 \<and> EclipseType_value Annular = 2 ^ 3
       \<and> EclipseType_value Partial = 2 ^ 4 \<and> EclipseType_value AnnularTotal = 2 ^ 5
       \<and> EclipseType_value Penumbral = 2 ^ 6
       \<and> LunarEclipseImpl_isTotal e = bit (type e) 2
       \<and> LunarEclipseImpl_isPartial e = bit (type e) 4
       \<and> LunarEclipseImpl_isPenumbralOnly e
           = (bit (type e) 6 \<and> \<not> bit (type e) 2 \<and> \<not> bit (type e) 4)
       \<and> SolarEclipseImpl_isTotal s = bit (type s) 2
       \<and> SolarEclipseImpl_isAnnular s = bit (type s) 3
       \<and> SolarEclipseImpl_isHybrid s = bit (type s) 5
       \<and> SolarEclipseImpl_isPartial s = bit (type s) 4
       \<and> SolarEclipseImpl_isCentral s = bit (type s) 0
       \<and> SolarEclipseImpl_isNonCentral s = bit (type s) 1
       \<and> (type e' = type e \<longrightarrow>
            LunarEclipseImpl_isTotal e' = LunarEclipseImpl_isTotal e
          \<and> LunarEclipseImpl_isPartial e' = LunarEclipseImpl_isPartial e
          \<and> LunarEclipseImpl_isPenumbralOnly e' = LunarEclipseImpl_isPenumbralOnly e)
       \<and> (type s' = type s \<longrightarrow>
            SolarEclipseImpl_isTotal s' = SolarEclipseImpl_isTotal s
          \<and> SolarEclipseImpl_isAnnular s' = SolarEclipseImpl_isAnnular s
          \<and> SolarEclipseImpl_isHybrid s' = SolarEclipseImpl_isHybrid s
          \<and> SolarEclipseImpl_isPartial s' = SolarEclipseImpl_isPartial s
          \<and> SolarEclipseImpl_isCentral s' = SolarEclipseImpl_isCentral s
          \<and> SolarEclipseImpl_isNonCentral s' = SolarEclipseImpl_isNonCentral s)"
proof -
  have lunar:
    "LunarEclipseImpl_isTotal e = bit (type e) 2"
    "LunarEclipseImpl_isPartial e = bit (type e) 4"
    "LunarEclipseImpl_isPenumbralOnly e
       = (bit (type e) 6 \<and> \<not> bit (type e) 2 \<and> \<not> bit (type e) 4)"
    for e :: LunarEclipseImpl
    by (simp_all add: LunarEclipseImpl_isTotal_def LunarEclipseImpl_isPartial_def
        LunarEclipseImpl_isPenumbralOnly_def js_and_bits js_and_total_or_partial)
  have solar:
    "SolarEclipseImpl_isTotal s = bit (type s) 2"
    "SolarEclipseImpl_isAnnular s = bit (type s) 3"
    "SolarEclipseImpl_isHybrid s = bit (type s) 5"
    "SolarEclipseImpl_isPartial s = bit (type s) 4"
    "SolarEclipseImpl_isCentral s = bit (type s) 0"
    "SolarEclipseImpl_isNonCentral s = bit (type s) 1"
    for s :: SolarEclipseImpl
    by (simp_all add: SolarEclipseImpl_isTotal_def SolarEclipseImpl_isAnnular_def
        SolarEclipseImpl_isHybrid_def SolarEclipseImpl_isPartial_def
        SolarEclipseImpl_isCentral_def SolarEclipseImpl_isNonCentral_def js_and_bits)
  show ?thesis
    by (simp add: lunar solar)
qed

theorem predicates_test_type_bits_witness:
  "LunarEclipseImpl_isTotal
     \<lparr>type = 4, maximum = 2460000, partialBegin = 2459999, partialEnd = 2460002,
      totalBegin = 0, totalEnd = 0, penumbralBegin = 2459998, penumbralEnd = 2460003\<rparr>
   \<and> LunarEclipseImpl_isTotal
     \<lparr>type = 4, maximum = 2460000, partialBegin = 2459999, partialEnd = 2460002,
      totalBegin = 2460000, totalEnd = 2460001,
      penumbralBegin = 2459998, penumbralEnd = 2460003\<rparr>
   \<and> \<not> LunarEclipseImpl_isPartial
     \<lparr>type = 4, maximum = 2460000, partialBegin = 2459999, partialEnd = 2460002,
      totalBegin = 0, totalEnd = 0, penumbralBegin = 2459998, penumbralEnd = 2460003\<rparr>
   \<and> SolarEclipseImpl_isCentral
     \<lparr>type = 5, maximum = 2460000, partialBegin = 2459999, partialEnd = 2460002,
      centralBegin = 0, centralEnd = 0, centerLineBegin = 0, centerLineEnd = 0\<rparr>
   \<and> \<not> SolarEclipseImpl_isAnnular
     \<lparr>type = 5, maximum = 2460000, partialBegin = 2459999, partialEnd = 2460002,
      centralBegin = 2460000, centralEnd = 2460001,
      centerLineBegin = 2460000, centerLineEnd = 2460001\<rparr>"
proof -
  have b: "bit (4::int) 2" "\<not> bit (4::int) 4" "bit (5::int) 0" "\<not> bit (5::int) 3"
    by (simp_all add: bit_iff_odd)
  show ?thesis
    using b predicates_test_type_bits [of
     "\<lparr>type = 4, maximum = 2460000, partialBegin = 2459999, partialEnd = 2460002,
      totalBegin = 0, totalEnd = 0, penumbralBegin = 2459998, penumbralEnd = 2460003\<rparr>"
     "\<lparr>type = 5, maximum = 2460000, partialBegin = 2459999, partialEnd = 2460002,
      centralBegin = 0, centralEnd = 0, centerLineBegin = 0, centerLineEnd = 0\<rparr>"
     "\<lparr>type = 4, maximum = 2460000, partialBegin = 2459999, partialEnd = 2460002,
      totalBegin = 2460000, totalEnd = 2460001,
      penumbralBegin = 2459998, penumbralEnd = 2460003\<rparr>"
     "\<lparr>type = 5, maximum = 2460000, partialBegin = 2459999, partialEnd = 2460002,
      centralBegin = 2460000, centralEnd = 2460001,
      centerLineBegin = 2460000, centerLineEnd = 2460001\<rparr>"]
    by simp
qed

text \<open>
  The sentence as the specification has it fails: a lunar record of type Total whose
  total phase slots hold the sentinel 0 still reports \<open>isTotal\<close>, and a central total
  solar record whose central slots hold 0 still reports \<open>isCentral\<close> and \<open>isTotal\<close>.
\<close>

theorem sentinel_predicates_counterexample:
  "LunarEclipseImpl_isTotal
     \<lparr>type = 4, maximum = 2460000, partialBegin = 2459999, partialEnd = 2460002,
      totalBegin = 0, totalEnd = 0, penumbralBegin = 2459998, penumbralEnd = 2460003\<rparr>
   \<and> SolarEclipseImpl_isCentral
     \<lparr>type = 5, maximum = 2460000, partialBegin = 2459999, partialEnd = 2460002,
      centralBegin = 0, centralEnd = 0, centerLineBegin = 0, centerLineEnd = 0\<rparr>
   \<and> SolarEclipseImpl_isTotal
     \<lparr>type = 5, maximum = 2460000, partialBegin = 2459999, partialEnd = 2460002,
      centralBegin = 0, centralEnd = 0, centerLineBegin = 0, centerLineEnd = 0\<rparr>"
  by (simp add: LunarEclipseImpl_isTotal_def SolarEclipseImpl_isCentral_def
      SolarEclipseImpl_isTotal_def js_and_def)

section \<open>Lazy initialisation of the native gateway\<close>

lemma snd_calculatePosition:
  "snd (calculatePosition eng bp st jd body fl) =
     ensureEphemerisInitialized bp
       (normalizeFlags (case fl of None \<Rightarrow> RawNumber DefaultSwissEphemeris | Some f \<Rightarrow> f)) st"
  by (simp add: calculatePosition_def Let_def split: sum.splits prod.splits)

lemma snd_findNextLunarEclipse:
  "snd (findNextLunarEclipse eng bp st jd fl t b) =
     ensureEphemerisInitialized bp
       (normalizeFlags (case fl of None \<Rightarrow> NamedFlag SwissEphemeris | Some f \<Rightarrow> f)) st"
  by (simp add: findNextLunarEclipse_def Let_def split: sum.splits prod.splits)

lemma snd_findNextSolarEclipse:
  "snd (findNextSolarEclipse eng bp st jd fl t b) =
     ensureEphemerisInitialized bp
       (normalizeFlags (case fl of None \<Rightarrow> NamedFlag SwissEphemeris | Some f \<Rightarrow> f)) st"
  by (simp add: findNextSolarEclipse_def Let_def split: sum.splits prod.splits)

lemma ensure_configures:
  "\<not> ephemerisPathSet st \<Longrightarrow> \<not> usingMoshier n \<Longrightarrow>
     ensureEphemerisInitialized bp n st =
       \<lparr>ephemerisPathSet = True, set_ephe_path_calls = set_ephe_path_calls st @ [bp]\<rparr>"
  by (simp add: ensureEphemerisInitialized_def binding_set_ephe_path_def)

lemma ensure_skips:
  "ephemerisPathSet st \<or> usingMoshier n \<Longrightarrow> ensureEphemerisInitialized bp n st = st"
  by (auto simp add: ensureEphemerisInitialized_def)

lemma explicitly_configured: "ephemerisPathSet (setEphemerisPath bp p st)"
  by (simp add: setEphemerisPath_def binding_set_ephe_path_def split: option.splits)

lemma default_flags_not_moshier:
  "\<not> usingMoshier DefaultSwissEphemeris"
  "\<not> usingMoshier 2"
  by (simp_all add: usingMoshier_def DefaultSwissEphemeris_def js_and_def js_or_def)

text \<open>
  C4. With flags whose Moshier bit is clear and the path not yet configured, the first
  \<open>calculatePosition\<close>, \<open>findNextLunarEclipse\<close> or \<open>findNextSolarEclipse\<close> call
  passes the bundled directory to the engine once and leaves the state configured; a
  further call of any of the three, with any flags, changes nothing. When the Moshier
  bit is set or the state is already configured (by an earlier call or by
  \<open>setEphemerisPath\<close>), a call changes nothing.
\<close>

theorem lazy_initialization:
  "(\<not> usingMoshier (normalizeFlags f) \<and> \<not> ephemerisPathSet st \<longrightarrow>
      snd (calculatePosition eng bp st jd body (Some f))
        = \<lparr>ephemerisPathSet = True, set_ephe_path_calls = set_ephe_path_calls st @ [bp]\<rparr>
    \<and> snd (findNextLunarEclipse eng bp st jd (Some f) t b)
        = \<lparr>ephemerisPathSet = True, set_ephe_path_calls = set_ephe_path_calls st @ [bp]\<rparr>
    \<and> snd (findNextSolarEclipse eng bp st jd (Some f) t b)
        = \<lparr>ephemerisPathSet = True, set_ephe_path_calls = set_ephe_path_calls st @ [bp]\<rparr>)
   \<and> (\<not> ephemerisPathSet st \<longrightarrow>
      snd (calculatePosition eng bp st jd body None)
        = \<lparr>ephemerisPathSet = True, set_ephe_path_calls = set_ephe_path_calls st @ [bp]\<rparr>
    \<and> snd (findNextLunarEclipse eng bp st jd None t b)
        = \<lparr>ephemerisPathSet = True, set_ephe_path_calls = set_ephe_path_calls st @ [bp]\<rparr>
    \<and> snd (findNextSolarEclipse eng bp st jd None t b)
        = \<lparr>ephemerisPathSet = True, set_ephe_path_calls = set_ephe_path_calls st @ [bp]\<rparr>)
   \<and> (ephemerisPathSet st \<longrightarrow>
      snd (calculatePosition eng bp st jd body g) = st
    \<and> snd (findNextLunarEclipse eng bp st jd g t b) = st
    \<and> snd (findNextSolarEclipse eng bp st jd g t b) = st)
   \<and> (usingMoshier (normalizeFlags f) \<longrightarrow>
      snd (calculatePosition eng bp st jd body (Some f)) = st
    \<and> snd (findNextLunarEclipse eng bp st jd (Some f) t b) = st
    \<and> snd (findNextSolarEclipse eng bp st jd (Some f) t b) = st)
   \<and> snd (calculatePosition eng bp (setEphemerisPath bp p st) jd body g)
       = setEphemerisPath bp p st
   \<and> snd (findNextLunarEclipse eng bp (setEphemerisPath bp p st) jd g t b)
       = setEphemerisPath bp p st
   \<and> snd (findNextSolarEclipse eng bp (setEphemerisPath bp p st) jd g t b)
       = setEphemerisPath bp p st"
  by (simp add: snd_calculatePosition snd_findNextLunarEclipse snd_findNextSolarEclipse
      ensure_configures ensure_skips default_flags_not_moshier explicitly_configured)

theorem lazy_initialization_witness:
  "\<not> usingMoshier (normalizeFlags (NamedFlag SwissEphemeris))
   \<and> \<not> ephemerisPathSet NodeState_initial
   \<and> snd (calculatePosition sample_engine ''/pkg/ephemeris'' NodeState_initial 2460000 0
            (Some (NamedFlag SwissEphemeris)))
       = \<lparr>ephemerisPathSet = True, set_ephe_path_calls = [''/pkg/ephemeris'']\<rparr>
   \<and> snd (calculatePosition sample_engine ''/pkg/ephemeris''
            \<lparr>ephemerisPathSet = True, set_ephe_path_calls = [''/pkg/ephemeris'']\<rparr> 2460000 0
            (Some (NamedFlag SwissEphemeris)))
       = \<lparr>ephemerisPathSet = True, set_ephe_path_calls = [''/pkg/ephemeris'']\<rparr>
   \<and> usingMoshier (normalizeFlags (NamedFlag MoshierEphemeris))
   \<and> snd (calculatePosition sample_engine ''/pkg/ephemeris'' NodeState_initial 2460000 0
            (Some (NamedFlag MoshierEphemeris)))
       = NodeState_initial"
proof -
  have a: "\<not> usingMoshier (normalizeFlags (NamedFlag SwissEphemeris))"
    by (simp add: usingMoshier_def js_and_def)
  have b: "\<not> ephemerisPathSet NodeState_initial"
    by (simp add: NodeState_initial_def)
  have c: "usingMoshier (normalizeFlags (NamedFlag MoshierEphemeris))"
    by (simp add: usingMoshier_def js_and_def)
  have d: "set_ephe_path_calls NodeState_initial = []"
    by (simp add: NodeState_initial_def)
  have e: "ephemerisPathSet \<lparr>ephemerisPathSet = True, set_ephe_path_calls = [''/pkg/ephemeris'']\<rparr>"
    by simp
  show ?thesis
    using a b c d e
      lazy_initialization [of "NamedFlag SwissEphemeris" NodeState_initial sample_engine
        "''/pkg/ephemeris''" 2460000 0 None None None]
      lazy_initialization [of "NamedFlag SwissEphemeris"
        "\<lparr>ephemerisPathSet = True, set_ephe_path_calls = [''/pkg/ephemeris'']\<rparr>"
        sample_engine "''/pkg/ephemeris''" 2460000 0 None None "Some (NamedFlag SwissEphemeris)"]
      lazy_initialization [of "NamedFlag MoshierEphemeris" NodeState_initial sample_engine
        "''/pkg/ephemeris''" 2460000 0 None None None]
    by simp
qed

section \<open>Calls before initialisation of the bytecode-module gateway\<close>

text \<open>
  \<open>init\<close> is the only place that sets \<open>ready\<close>, and it stores the module with it: a
  ready instance without a module does not arise from a new instance.
\<close>

lemma init_new_instance:
  "init (Some m) SwissEphemeris_new = Inr \<lparr>module = Some m, ready = True\<rparr>"
  "init None SwissEphemeris_new
     = Inl (Error ''Failed to load WASM module: SwissEphModule factory function not found'')"
  by (simp_all add: init_def SwissEphemeris_new_def)

lemma init_fresh_module: "init (Some fresh_module) SwissEphemeris_new = Inr ready_instance"
  by (simp add: init_new_instance ready_instance_def)

lemma checkReady_then_not_ready:
  "\<not> ready s \<Longrightarrow> checkReady_then s body = (Inl not_initialized, s)"
  by (simp add: checkReady_then_def)

text \<open>
  C8. On an instance whose \<open>init\<close> has not completed, each of the nine calculation
  operations throws the not-initialised error at once: the outcome is that error for
  every engine, and the instance is unchanged.
\<close>

theorem not_ready_fails:
  "\<not> ready s \<Longrightarrow>
     SwissEphemeris_version eng s = (Inl not_initialized, s)
   \<and> SwissEphemeris_setEphemerisPath s path = (Inl not_initialized, s)
   \<and> SwissEphemeris_julianDay eng s y mo d h cal = (Inl not_initialized, s)
   \<and> SwissEphemeris_julianDayToDate eng s jd cal = (Inl not_initialized, s)
   \<and> SwissEphemeris_calculatePosition eng s jd body fl = (Inl not_initialized, s)
   \<and> SwissEphemeris_calculateHouses eng s jd lat lon hs = (Inl not_initialized, s)
   \<and> SwissEphemeris_findNextLunarEclipse eng s jd fl t b = (Inl not_initialized, s)
   \<and> SwissEphemeris_findNextSolarEclipse eng s jd fl t b = (Inl not_initialized, s)
   \<and> SwissEphemeris_getCelestialBodyName eng s body = (Inl not_initialized, s)"
  by (simp add: checkReady_then_not_ready SwissEphemeris_version_def
      SwissEphemeris_setEphemerisPath_def SwissEphemeris_julianDay_def
      SwissEphemeris_julianDayToDate_def SwissEphemeris_calculatePosition_def
      SwissEphemeris_calculateHouses_def SwissEphemeris_findNextLunarEclipse_def
      SwissEphemeris_findNextSolarEclipse_def SwissEphemeris_getCelestialBodyName_def)

theorem not_ready_fails_witness:
  "\<not> ready SwissEphemeris_new
   \<and> SwissEphemeris_calculatePosition sample_engine SwissEphemeris_new 2460000 0 None
       = (Inl (Error ''SwissEphemeris not initialized. Call await swe.init() first.''),
          SwissEphemeris_new)
   \<and> SwissEphemeris_version sample_engine SwissEphemeris_new
       = (Inl (Error ''SwissEphemeris not initialized. Call await swe.init() first.''),
          SwissEphemeris_new)"
proof -
  have h: "\<not> ready SwissEphemeris_new"
    by (simp add: SwissEphemeris_new_def)
  show ?thesis
    using h not_ready_fails [OF h, of sample_engine "''/ephemeris''" 0 0 0 None None 2460000 0 None]
    by (simp add: not_initialized_def)
qed

section \<open>Linear-memory bookkeeping of the bytecode-module gateway\<close>

lemma heap_top_ge: "(a, n) \<in> set bs \<Longrightarrow> a + n \<le> heap_top bs"
  by (induction bs) auto

lemma filter_fresh: "heap_top bs < p \<Longrightarrow> filter (\<lambda>b. fst b \<noteq> p) bs = bs"
proof -
  assume lt: "heap_top bs < p"
  have "fst b \<noteq> p" if "b \<in> set bs" for b
  proof -
    obtain a n where b: "b = (a, n)" by (cases b)
    with that heap_top_ge[of a n bs] lt show ?thesis by simp
  qed
  then show ?thesis by (simp add: filter_id_conv)
qed

lemma live_blocks_checkReady_then:
  assumes "\<And>m. allocated (snd (body m)) = allocated m"
  shows "live_blocks (snd (checkReady_then s body)) = live_blocks s"
proof (cases "ready s")
  case False
  then show ?thesis by (simp add: checkReady_then_def)
next
  case True
  show ?thesis
  proof (cases "module s")
    case None
    with True show ?thesis by (simp add: checkReady_then_def)
  next
    case (Some m)
    obtain r m' where bm: "body m = (r, m')" by (cases "body m")
    have "allocated m' = allocated m" using assms[of m] bm by simp
    with True Some bm show ?thesis
      by (simp add: checkReady_then_def live_blocks_def)
  qed
qed

lemma malloc_allocated:
  assumes "malloc n m = (p, m')"
  shows "allocated m' = (p, n) # allocated m" and "heap_top (allocated m) < p"
    and "heap_top (allocated m') = p + n"
  using assms by (auto simp add: malloc_def Let_def)

lemma allocated_free: "allocated (free p m) = filter (\<lambda>b. fst b \<noteq> p) (allocated m)"
  by (simp add: free_def)

lemma one_buffer_released:
  assumes "malloc n1 m = (p1, m1)" "allocated m2 = allocated m1"
  shows "allocated (free p1 m2) = allocated m"
  using malloc_allocated[OF assms(1)] assms(2)
  by (simp add: allocated_free filter_fresh)

lemma two_buffers_released:
  assumes "malloc n1 m = (p1, m1)" "malloc n2 m1 = (p2, m2)" "allocated m3 = allocated m2"
  shows "allocated (free p2 (free p1 m3)) = allocated m"
proof -
  note a = malloc_allocated[OF assms(1)]
  note b = malloc_allocated[OF assms(2)]
  have lt: "p1 < p2" using a(3) b(2) by simp
  have "allocated (free p1 m3) = (p2, n2) # allocated m"
    using a b lt assms(3) by (simp add: allocated_free filter_fresh)
  moreover have "heap_top (allocated m) < p2" using a(2) lt by simp
  ultimately show ?thesis
    by (simp add: allocated_free filter_fresh)
qed

lemma four_buffers_released:
  assumes "malloc n1 m = (p1, m1)" "malloc n2 m1 = (p2, m2)"
    "malloc n3 m2 = (p3, m3)" "malloc n4 m3 = (p4, m4)" "allocated m5 = allocated m4"
  shows "allocated (free p4 (free p3 (free p2 (free p1 m5)))) = allocated m"
proof -
  note a = malloc_allocated[OF assms(1)]
  note b = malloc_allocated[OF assms(2)]
  note c = malloc_allocated[OF assms(3)]
  note d = malloc_allocated[OF assms(4)]
  have lt: "p1 < p2" "p2 < p3" "p3 < p4"
    using a(3) b(2) b(3) c(2) c(3) d(2) by simp_all
  have top: "heap_top (allocated m) < p1" by (rule a(2))
  have 1: "allocated (free p1 m5) = (p4, n4) # (p3, n3) # (p2, n2) # allocated m"
    using a(1) b(1) c(1) d(1) lt top assms(5) by (simp add: allocated_free filter_fresh)
  have 2: "allocated (free p2 (free p1 m5)) = (p4, n4) # (p3, n3) # allocated m"
    using 1 lt top by (simp add: allocated_free[of p2] filter_fresh)
  have 3: "allocated (free p3 (free p2 (free p1 m5))) = (p4, n4) # allocated m"
    using 2 lt top by (simp add: allocated_free[of p3] filter_fresh)
  show ?thesis
    using 3 lt top by (simp add: allocated_free[of p4] filter_fresh)
qed


lemma calc_ut_wrap_allocated:
  "swe_calc_ut_wrap eng jd ipl iflag xx serr m = (r, m') \<Longrightarrow> allocated m' = allocated m"
  by (auto simp add: swe_calc_ut_wrap_def write_doubles_def split: prod.splits)

lemma lun_eclipse_wrap_allocated:
  "swe_lun_eclipse_when_wrap eng jd ifl ifltype tret bw serr m = (r, m')
     \<Longrightarrow> allocated m' = allocated m"
  by (auto simp add: swe_lun_eclipse_when_wrap_def write_doubles_def split: prod.splits)

lemma sol_eclipse_wrap_allocated:
  "swe_sol_eclipse_when_glob_wrap eng jd ifl ifltype tret bw serr m = (r, m')
     \<Longrightarrow> allocated m' = allocated m"
  by (auto simp add: swe_sol_eclipse_when_glob_wrap_def write_doubles_def split: prod.splits)

lemma houses_wrap_allocated:
  "allocated (snd (swe_houses_wrap eng jd lat lon hsys cp ap m)) = allocated m"
  by (simp add: swe_houses_wrap_def write_doubles_def split: prod.splits)

lemma revjul_wrap_allocated:
  "allocated (swe_revjul_wrap eng jd g yp mp dp hp m) = allocated m"
  by (simp add: swe_revjul_wrap_def split: prod.splits)

lemma set_ephe_path_wrap_allocated:
  "allocated (swe_set_ephe_path_wrap p m) = allocated m"
  by (simp add: swe_set_ephe_path_wrap_def)

lemma allocateUTF8_as_malloc:
  "allocateUTF8 str m = (p, m') \<Longrightarrow>
     \<exists>m1. malloc (length str + 1) m = (p, m1) \<and> allocated m' = allocated m1"
  by (auto simp add: allocateUTF8_def split: prod.splits)

lemma live_blocks_version:
  "live_blocks (snd (SwissEphemeris_version eng s)) = live_blocks s"
  unfolding SwissEphemeris_version_def
  by (rule live_blocks_checkReady_then) simp

lemma live_blocks_julianDay:
  "live_blocks (snd (SwissEphemeris_julianDay eng s y mo d h cal)) = live_blocks s"
  unfolding SwissEphemeris_julianDay_def
  by (rule live_blocks_checkReady_then) simp

lemma live_blocks_getCelestialBodyName:
  "live_blocks (snd (SwissEphemeris_getCelestialBodyName eng s body)) = live_blocks s"
  unfolding SwissEphemeris_getCelestialBodyName_def
  by (rule live_blocks_checkReady_then) simp

lemma live_blocks_setEphemerisPath:
  "live_blocks (snd (SwissEphemeris_setEphemerisPath s path)) = live_blocks s"
  unfolding SwissEphemeris_setEphemerisPath_def
proof (rule live_blocks_checkReady_then)
  fix m
  obtain p m1 where a: "allocateUTF8 path m = (p, m1)" by (cases "allocateUTF8 path m")
  then obtain m0 where m0: "malloc (length path + 1) m = (p, m0)" "allocated m1 = allocated m0"
    using allocateUTF8_as_malloc by blast
  have "allocated (free p (swe_set_ephe_path_wrap p m1)) = allocated m"
    by (rule one_buffer_released[OF m0(1)]) (simp add: set_ephe_path_wrap_allocated m0(2))
  then show "allocated (snd (case allocateUTF8 path m of
          (pathPtr, m1) \<Rightarrow>
            let m2 = swe_set_ephe_path_wrap pathPtr m1; m3 = free pathPtr m2
            in (Inr (), m3))) = allocated m"
    by (simp add: a Let_def)
qed

lemma live_blocks_julianDayToDate:
  "live_blocks (snd (SwissEphemeris_julianDayToDate eng s jd cal)) = live_blocks s"
  unfolding SwissEphemeris_julianDayToDate_def
  by (rule live_blocks_checkReady_then)
    (auto simp add: Let_def revjul_wrap_allocated split: prod.splits
      intro!: four_buffers_released)

lemma live_blocks_calculatePosition:
  "live_blocks (snd (SwissEphemeris_calculatePosition eng s jd body fl)) = live_blocks s"
  unfolding SwissEphemeris_calculatePosition_def
  by (rule live_blocks_checkReady_then)
    (auto simp add: Let_def split: prod.splits
      intro!: two_buffers_released dest: calc_ut_wrap_allocated)

lemma live_blocks_findNextLunarEclipse:
  "live_blocks (snd (SwissEphemeris_findNextLunarEclipse eng s jd fl t b)) = live_blocks s"
  unfolding SwissEphemeris_findNextLunarEclipse_def
  by (rule live_blocks_checkReady_then)
    (auto simp add: Let_def split: prod.splits
      intro!: two_buffers_released dest: lun_eclipse_wrap_allocated)

lemma live_blocks_findNextSolarEclipse:
  "live_blocks (snd (SwissEphemeris_findNextSolarEclipse eng s jd fl t b)) = live_blocks s"
  unfolding SwissEphemeris_findNextSolarEclipse_def
  by (rule live_blocks_checkReady_then)
    (auto simp add: Let_def split: prod.splits
      intro!: two_buffers_released dest: sol_eclipse_wrap_allocated)

lemma live_blocks_calculateHouses:
  "live_blocks (snd (SwissEphemeris_calculateHouses eng s jd lat lon hs)) = live_blocks s"
  unfolding SwissEphemeris_calculateHouses_def
  by (rule live_blocks_checkReady_then)
    (auto simp add: Let_def houses_wrap_allocated split: prod.splits
      intro!: two_buffers_released)


lemma fst_checkReady_then:
  "ready s \<Longrightarrow> module s = Some m \<Longrightarrow> fst (checkReady_then s body) = fst (body m)"
  by (simp add: checkReady_then_def split: prod.splits)

lemma read_written_double:
  "i < n \<Longrightarrow> heap_f64 (write_doubles base n buf m) (base + i * 8) = buf i"
  by (simp add: write_doubles_def)

lemma read_back_doubles:
  "map (\<lambda>i. getValue_double ((write_doubles base n buf m)\<lparr>heap_text := t\<rparr>) (base + i * 8))
     [0..<n] = map buf [0..<n]"
  by (rule map_cong [OF refl]) (simp add: getValue_double_def read_written_double)

lemma nth_map_upt0: "i < n \<Longrightarrow> map buf [0..<n] ! i = buf i"
  by simp

lemma native_position_result:
  "fst (calculatePosition eng bp st jd body fl) =
     (case swe_calc_ut eng jd (to_int32 body)
             (to_int32 (normalizeFlags
                (case fl of None \<Rightarrow> RawNumber DefaultSwissEphemeris | Some f \<Rightarrow> f))) of
        (ret, buf, msg) \<Rightarrow>
          if ret < 0 then Inl (Error msg)
          else Inr \<lparr>longitude = buf 0, latitude = buf 1, distance = buf 2,
                    longitudeSpeed = buf 3, latitudeSpeed = buf 4, distanceSpeed = buf 5,
                    flags = ret\<rparr>)"
  by (simp add: calculatePosition_def binding_calc_ut_def Let_def nth_map_upt0 flip: numeral_2_eq_2
      del: upt_Suc split: prod.splits)

lemma browser_position_result:
  assumes "ready s" "module s = Some m"
  shows "fst (SwissEphemeris_calculatePosition eng s jd body fl) =
     (case swe_calc_ut eng jd (to_int32 body)
             (to_int32 (normalizeFlags
                (case fl of None \<Rightarrow> RawNumber DefaultMoshier | Some f \<Rightarrow> f))) of
        (ret, buf, msg) \<Rightarrow>
          if ret < 0 then Inl (Error msg)
          else Inr \<lparr>longitude = buf 0, latitude = buf 1, distance = buf 2,
                    longitudeSpeed = buf 3, latitudeSpeed = buf 4, distanceSpeed = buf 5,
                    flags = ret\<rparr>)"
  unfolding SwissEphemeris_calculatePosition_def fst_checkReady_then[OF assms]
  by (simp add: swe_calc_ut_wrap_def Let_def UTF8ToString_def read_back_doubles nth_map_upt0 flip: numeral_2_eq_2
      del: upt_Suc split: prod.splits)


lemma native_lunar_result:
  "fst (findNextLunarEclipse eng bp st jd fl t b) =
     (case swe_lun_eclipse_when eng jd
             (to_int32 (normalizeFlags
                (case fl of None \<Rightarrow> NamedFlag SwissEphemeris | Some f \<Rightarrow> f)))
             (to_int32 (normalizeEclipseTypes
                (case t of None \<Rightarrow> RawType 0 | Some x \<Rightarrow> x)))
             (to_int32 (if (case b of None \<Rightarrow> False | Some x \<Rightarrow> x) then 1 else 0)) of
        (ret, buf, msg) \<Rightarrow>
          if ret < 0 then Inl (Error msg)
          else Inr \<lparr>type = ret, maximum = buf 0, partialBegin = buf 1, partialEnd = buf 2,
                    totalBegin = buf 3, totalEnd = buf 4,
                    penumbralBegin = buf 5, penumbralEnd = buf 6\<rparr>)"
  by (simp add: findNextLunarEclipse_def binding_lun_eclipse_when_def Let_def nth_map_upt0
      flip: numeral_2_eq_2 del: upt_Suc split: prod.splits)

lemma browser_lunar_result:
  assumes "ready s" "module s = Some m"
  shows "fst (SwissEphemeris_findNextLunarEclipse eng s jd fl t b) =
     (case swe_lun_eclipse_when eng jd
             (to_int32 (normalizeFlags
                (case fl of None \<Rightarrow> NamedFlag MoshierEphemeris | Some f \<Rightarrow> f)))
             (to_int32 (normalizeEclipseTypes
                (case t of None \<Rightarrow> RawType 0 | Some x \<Rightarrow> x)))
             (to_int32 (if (case b of None \<Rightarrow> False | Some x \<Rightarrow> x) then 1 else 0)) of
        (ret, buf, msg) \<Rightarrow>
          if ret < 0 then Inl (Error msg)
          else Inr \<lparr>type = ret, maximum = buf 0, partialBegin = buf 1, partialEnd = buf 2,
                    totalBegin = buf 3, totalEnd = buf 4,
                    penumbralBegin = buf 5, penumbralEnd = buf 6\<rparr>)"
  unfolding SwissEphemeris_findNextLunarEclipse_def fst_checkReady_then[OF assms]
  by (simp add: swe_lun_eclipse_when_wrap_def Let_def UTF8ToString_def read_back_doubles
      nth_map_upt0 flip: numeral_2_eq_2 del: upt_Suc split: prod.splits)

lemma native_solar_result:
  "fst (findNextSolarEclipse eng bp st jd fl t b) =
     (case swe_sol_eclipse_when_glob eng jd
             (to_int32 (normalizeFlags
                (case fl of None \<Rightarrow> NamedFlag SwissEphemeris | Some f \<Rightarrow> f)))
             (to_int32 (normalizeEclipseTypes
                (case t of None \<Rightarrow> RawType 0 | Some x \<Rightarrow> x)))
             (to_int32 (if (case b of None \<Rightarrow> False | Some x \<Rightarrow> x) then 1 else 0)) of
        (ret, buf, msg) \<Rightarrow>
          if ret < 0 then Inl (Error msg)
          else Inr \<lparr>type = ret, maximum = buf 0, partialBegin = buf 1, partialEnd = buf 2,
                    centralBegin = buf 3, centralEnd = buf 4,
                    centerLineBegin = buf 5, centerLineEnd = buf 6\<rparr>)"
  by (simp add: findNextSolarEclipse_def binding_sol_eclipse_when_glob_def Let_def nth_map_upt0
      flip: numeral_2_eq_2 del: upt_Suc split: prod.splits)

lemma browser_solar_result:
  assumes "ready s" "module s = Some m"
  shows "fst (SwissEphemeris_findNextSolarEclipse eng s jd fl t b) =
     (case swe_sol_eclipse_when_glob eng jd
             (to_int32 (normalizeFlags
                (case fl of None \<Rightarrow> NamedFlag MoshierEphemeris | Some f \<Rightarrow> f)))
             (to_int32 (normalizeEclipseTypes
                (case t of None \<Rightarrow> RawType 0 | Some x \<Rightarrow> x)))
             (to_int32 (if (case b of None \<Rightarrow> False | Some x \<Rightarrow> x) then 1 else 0)) of
        (ret, buf, msg) \<Rightarrow>
          if ret < 0 then Inl (Error msg)
          else Inr \<lparr>type = ret, maximum = buf 0, partialBegin = buf 1, partialEnd = buf 2,
                    centralBegin = buf 3, centralEnd = buf 4,
                    centerLineBegin = buf 5, centerLineEnd = buf 6\<rparr>)"
  unfolding SwissEphemeris_findNextSolarEclipse_def fst_checkReady_then[OF assms]
  by (simp add: swe_sol_eclipse_when_glob_wrap_def Let_def UTF8ToString_def read_back_doubles
      nth_map_upt0 flip: numeral_2_eq_2 del: upt_Suc split: prod.splits)

lemma house_code_int32:
  "to_int32 (of_char (HouseSystem_value h)) = of_char (HouseSystem_value h)"
  by (cases h) (simp_all add: to_int32_def)

lemma native_houses_result:
  "calculateHouses eng jd lat lon hs =
     (case swe_houses eng jd lat lon
             (of_char (HouseSystem_value (case hs of None \<Rightarrow> Placidus | Some h \<Rightarrow> h))) of
        (ret, cbuf, abuf) \<Rightarrow>
          if ret < 0 then Inl (Error ''Failed to calculate houses'')
          else Inr \<lparr>cusps = map cbuf [0..<13], ascendant = abuf 0, mc = abuf 1,
                    armc = abuf 2, vertex = abuf 3, equatorialAscendant = abuf 4,
                    coAscendant1 = abuf 5, coAscendant2 = abuf 6, polarAscendant = abuf 7,
                    houseSystem = (case hs of None \<Rightarrow> Placidus | Some h \<Rightarrow> h)\<rparr>)"
  by (simp add: calculateHouses_def binding_houses_def Let_def nth_map_upt0
      flip: numeral_2_eq_2 del: upt_Suc split: prod.splits)

lemma read_below_other_write:
  "base + 8 * n \<le> base2 \<Longrightarrow> i < n \<Longrightarrow>
     heap_f64 (write_doubles base2 n2 buf2 (write_doubles base n buf m)) (base + i * 8) = buf i"
  by (simp add: write_doubles_def)

lemma browser_houses_result:
  assumes "ready s" "module s = Some m"
  shows "fst (SwissEphemeris_calculateHouses eng s jd lat lon hs) =
     (case swe_houses eng jd lat lon
             (of_char (HouseSystem_value (case hs of None \<Rightarrow> Placidus | Some h \<Rightarrow> h))) of
        (ret, cbuf, abuf) \<Rightarrow>
          Inr \<lparr>cusps = map cbuf [0..<13], ascendant = abuf 0, mc = abuf 1,
                armc = abuf 2, vertex = abuf 3, equatorialAscendant = abuf 4,
                coAscendant1 = abuf 5, coAscendant2 = abuf 6, polarAscendant = abuf 7,
                houseSystem = (case hs of None \<Rightarrow> Placidus | Some h \<Rightarrow> h)\<rparr>)"
proof -
  define hsys where "hsys = (case hs of None \<Rightarrow> Placidus | Some h \<Rightarrow> h)"
  obtain cp m1 where a: "malloc 104 m = (cp, m1)" by (cases "malloc 104 m")
  obtain ap m2 where b: "malloc 80 m1 = (ap, m2)" by (cases "malloc 80 m1")
  obtain ret cbuf abuf where e:
    "swe_houses eng jd lat lon (of_char (HouseSystem_value hsys)) = (ret, cbuf, abuf)"
    by (cases "swe_houses eng jd lat lon (of_char (HouseSystem_value hsys))")
  have sep: "cp + 8 * 13 \<le> ap"
    using malloc_allocated(3)[OF a] malloc_allocated(2)[OF b] by simp
  define m3 where "m3 = write_doubles ap 10 abuf (write_doubles cp 13 cbuf m2)"
  have w: "snd (swe_houses_wrap eng jd lat lon (of_char (HouseSystem_value hsys)) cp ap m2) = m3"
    by (simp add: swe_houses_wrap_def house_code_int32 e m3_def)
  have rc: "map (\<lambda>i. getValue_double m3 (cp + i * 8)) [0..<13] = map cbuf [0..<13]"
    unfolding m3_def getValue_double_def
    by (rule map_cong [OF refl]) (simp add: read_below_other_write[OF sep])
  have pa: "getValue_double m3 (ap + i * 8) = abuf i" if "i < 10" for i
    unfolding m3_def getValue_double_def using that by (simp add: read_written_double)
  note ps = pa[of 0, simplified] pa[of 1, simplified] pa[of 2, simplified]
    pa[of 3, simplified] pa[of 4, simplified] pa[of 5, simplified]
    pa[of 6, simplified] pa[of 7, simplified]
  show ?thesis
    unfolding SwissEphemeris_calculateHouses_def fst_checkReady_then[OF assms] Let_def
    by (simp add: a b e w rc ps flip: hsys_def del: upt_Suc)
qed

lemma browser_julianDayToDate_result:
  assumes "ready s" "module s = Some m"
  shows "fst (SwissEphemeris_julianDayToDate eng s jd cal) = Inr (julianDayToDate eng jd cal)"
proof -
  define ct where "ct = (case cal of None \<Rightarrow> Gregorian | Some c \<Rightarrow> c)"
  obtain p1 m1 where a: "malloc 4 m = (p1, m1)" by (cases "malloc 4 m")
  obtain p2 m2 where b: "malloc 4 m1 = (p2, m2)" by (cases "malloc 4 m1")
  obtain p3 m3 where c: "malloc 4 m2 = (p3, m3)" by (cases "malloc 4 m2")
  obtain p4 m4 where d: "malloc 8 m3 = (p4, m4)" by (cases "malloc 8 m3")
  have lt: "p1 < p2" "p2 < p3"
    using malloc_allocated(3)[OF a] malloc_allocated(2)[OF b]
      malloc_allocated(3)[OF b] malloc_allocated(2)[OF c] by simp_all
  obtain y mo dd h where e: "swe_revjul eng jd (to_int32 (CalendarType_value ct)) = (y, mo, dd, h)"
    by (cases "swe_revjul eng jd (to_int32 (CalendarType_value ct))")
  show ?thesis
    unfolding SwissEphemeris_julianDayToDate_def fst_checkReady_then[OF assms]
    using lt
    by (simp add: a b c d e Let_def swe_revjul_wrap_def getValue_i32_def getValue_double_def
        julianDayToDate_def binding_revjul_def flip: ct_def)
qed

lemma browser_julianDay_result:
  assumes "ready s" "module s = Some m"
  shows "fst (SwissEphemeris_julianDay eng s y mo d h cal) = Inr (julianDay eng y mo d h cal)"
  unfolding SwissEphemeris_julianDay_def fst_checkReady_then[OF assms]
  by (simp add: julianDay_def binding_julday_def swe_julday_wrap_def)

lemma browser_getCelestialBodyName_result:
  assumes "ready s" "module s = Some m"
  shows "fst (SwissEphemeris_getCelestialBodyName eng s body)
           = Inr (getCelestialBodyName eng body)"
  unfolding SwissEphemeris_getCelestialBodyName_def fst_checkReady_then[OF assms]
  by (simp add: getCelestialBodyName_def binding_get_planet_name_def
      swe_get_planet_name_wrap_def)


lemma live_blocks_ready_instance: "live_blocks ready_instance = []"
  by (simp add: live_blocks_def ready_instance_def fresh_module_def)

lemma ready_instance_ready:
  "ready ready_instance" "module ready_instance = Some fresh_module"
  by (simp_all add: ready_instance_def)

text \<open>
  C6. Every calculation operation of the bytecode-module gateway leaves exactly the
  blocks allocated that were allocated before it: what it takes with \<open>_malloc\<close> (or
  \<open>allocateUTF8\<close>) it gives back with \<open>_free\<close>, whether it returns a record, throws
  the engine's error or throws because the instance is not ready.
\<close>

theorem allocations_balanced:
  "live_blocks (snd (SwissEphemeris_version eng s)) = live_blocks s
   \<and> live_blocks (snd (SwissEphemeris_setEphemerisPath s path)) = live_blocks s
   \<and> live_blocks (snd (SwissEphemeris_julianDay eng s y mo d h cal)) = live_blocks s
   \<and> live_blocks (snd (SwissEphemeris_julianDayToDate eng s jd cal)) = live_blocks s
   \<and> live_blocks (snd (SwissEphemeris_calculatePosition eng s jd body fl)) = live_blocks s
   \<and> live_blocks (snd (SwissEphemeris_calculateHouses eng s jd lat lon hs)) = live_blocks s
   \<and> live_blocks (snd (SwissEphemeris_findNextLunarEclipse eng s jd fl t b)) = live_blocks s
   \<and> live_blocks (snd (SwissEphemeris_findNextSolarEclipse eng s jd fl t b)) = live_blocks s
   \<and> live_blocks (snd (SwissEphemeris_getCelestialBodyName eng s body)) = live_blocks s"
  by (simp add: live_blocks_version live_blocks_setEphemerisPath live_blocks_julianDay
      live_blocks_julianDayToDate live_blocks_calculatePosition live_blocks_calculateHouses
      live_blocks_findNextLunarEclipse live_blocks_findNextSolarEclipse
      live_blocks_getCelestialBodyName)

text \<open>
  A failing call on a fresh instance: the stand-in engine rejects body id -1, the
  gateway throws the engine's text, and nothing stays allocated, also after a second
  failing call.
\<close>

theorem allocations_balanced_witness:
  "fst (SwissEphemeris_calculatePosition sample_engine ready_instance 2460000 (- 1) None)
     = Inl (Error ''illegal planet number'')
   \<and> live_blocks
        (snd (SwissEphemeris_calculatePosition sample_engine ready_instance 2460000 (- 1) None))
      = []
   \<and> live_blocks
        (snd (SwissEphemeris_calculatePosition sample_engine
               (snd (SwissEphemeris_calculatePosition sample_engine ready_instance
                       2460000 (- 1) None))
               2460000 (- 1) None))
      = []"
proof -
  have e: "fst (SwissEphemeris_calculatePosition sample_engine ready_instance 2460000 (- 1) None)
     = Inl (Error ''illegal planet number'')"
    by (simp add: browser_position_result[OF ready_instance_ready] sample_engine_def
        to_int32_def)
  show ?thesis
    using e live_blocks_ready_instance
      allocations_balanced [of sample_engine ready_instance "[]" 0 0 0 None None 2460000
        "- 1" None 0 0 None None None]
      allocations_balanced [of sample_engine
        "snd (SwissEphemeris_calculatePosition sample_engine ready_instance 2460000 (- 1) None)"
        "[]" 0 0 0 None None 2460000 "- 1" None 0 0 None None None]
    by simp
qed

section \<open>Computation failures\<close>

text \<open>
  When the engine returns a negative code from the position calculation or from either
  eclipse search, both gateways throw an error whose message is the engine's text,
  unchanged, and return no record. When the engine returns a negative code from the
  house calculation, the native gateway throws too, with the message
  \<open>Failed to calculate houses\<close>.
\<close>

theorem computation_failure_surfaces_message:
  assumes "ready s" and "module s = Some m"
  shows
    "(let r = swe_calc_ut eng jd (to_int32 body)
               (to_int32 (normalizeFlags
                  (case fl of None \<Rightarrow> RawNumber DefaultSwissEphemeris | Some f \<Rightarrow> f)))
      in fst r < 0 \<longrightarrow>
           fst (calculatePosition eng bp st jd body fl) = Inl (Error (snd (snd r))))
   \<and> (let r = swe_calc_ut eng jd (to_int32 body)
               (to_int32 (normalizeFlags
                  (case fl of None \<Rightarrow> RawNumber DefaultMoshier | Some f \<Rightarrow> f)))
      in fst r < 0 \<longrightarrow>
           fst (SwissEphemeris_calculatePosition eng s jd body fl) = Inl (Error (snd (snd r))))
   \<and> (let r = swe_lun_eclipse_when eng jd
               (to_int32 (normalizeFlags
                  (case fl of None \<Rightarrow> NamedFlag SwissEphemeris | Some f \<Rightarrow> f)))
               (to_int32 (normalizeEclipseTypes
                  (case t of None \<Rightarrow> RawType 0 | Some x \<Rightarrow> x)))
               (to_int32 (if (case b of None \<Rightarrow> False | Some x \<Rightarrow> x) then 1 else 0))
      in fst r < 0 \<longrightarrow>
           fst (findNextLunarEclipse eng bp st jd fl t b) = Inl (Error (snd (snd r))))
   \<and> (let r = swe_lun_eclipse_when eng jd
               (to_int32 (normalizeFlags
                  (case fl of None \<Rightarrow> NamedFlag MoshierEphemeris | Some f \<Rightarrow> f)))
               (to_int32 (normalizeEclipseTypes
                  (case t of None \<Rightarrow> RawType 0 | Some x \<Rightarrow> x)))
               (to_int32 (if (case b of None \<Rightarrow> False | Some x \<Rightarrow> x) then 1 else 0))
      in fst r < 0 \<longrightarrow>
           fst (SwissEphemeris_findNextLunarEclipse eng s jd fl t b)
             = Inl (Error (snd (snd r))))
   \<and> (let r = swe_sol_eclipse_when_glob eng jd
               (to_int32 (normalizeFlags
                  (case fl of None \<Rightarrow> NamedFlag SwissEphemeris | Some f \<Rightarrow> f)))
               (to_int32 (normalizeEclipseTypes
                  (case t of None \<Rightarrow> RawType 0 | Some x \<Rightarrow> x)))
               (to_int32 (if (case b of None \<Rightarrow> False | Some x \<Rightarrow> x) then 1 else 0))
      in fst r < 0 \<longrightarrow>
           fst (findNextSolarEclipse eng bp st jd fl t b) = Inl (Error (snd (snd r))))
   \<and> (let r = swe_sol_eclipse_when_glob eng jd
               (to_int32 (normalizeFlags
                  (case fl of None \<Rightarrow> NamedFlag MoshierEphemeris | Some f \<Rightarrow> f)))
               (to_int32 (normalizeEclipseTypes
                  (case t of None \<Rightarrow> RawType 0 | Some x \<Rightarrow> x)))
               (to_int32 (if (case b of None \<Rightarrow> False | Some x \<Rightarrow> x) then 1 else 0))
      in fst r < 0 \<longrightarrow>
           fst (SwissEphemeris_findNextSolarEclipse eng s jd fl t b)
             = Inl (Error (snd (snd r))))
   \<and> (fst (swe_houses eng jd lat lon
               (of_char (HouseSystem_value (case hs of None \<Rightarrow> Placidus | Some h \<Rightarrow> h)))) < 0
        \<longrightarrow> calculateHouses eng jd lat lon hs = Inl (Error ''Failed to calculate houses''))"
  unfolding native_position_result browser_position_result[OF assms]
    native_lunar_result browser_lunar_result[OF assms]
    native_solar_result browser_solar_result[OF assms] native_houses_result Let_def
  by (simp split: prod.splits)

theorem computation_failure_surfaces_message_example:
  "ready ready_instance \<and> module ready_instance = Some fresh_module
   \<and> fst (swe_calc_ut sample_engine 2460000 (to_int32 (- 1)) (to_int32 (normalizeFlags
            (NamedFlag MoshierEphemeris)))) < 0
   \<and> fst (calculatePosition sample_engine ''/pkg/ephemeris'' NodeState_initial 2460000 (- 1)
            (Some (NamedFlag MoshierEphemeris)))
       = Inl (Error ''illegal planet number'')
   \<and> fst (SwissEphemeris_calculatePosition sample_engine ready_instance 2460000 (- 1)
            (Some (NamedFlag MoshierEphemeris)))
       = Inl (Error ''illegal planet number'')
   \<and> fst (swe_houses sample_engine 2460000 80 0 (of_char (HouseSystem_value Placidus))) < 0
   \<and> calculateHouses sample_engine 2460000 80 0 None
       = Inl (Error ''Failed to calculate houses'')"
proof -
  have e: "fst (swe_calc_ut sample_engine 2460000 (to_int32 (- 1)) (to_int32 (normalizeFlags
            (NamedFlag MoshierEphemeris)))) < 0"
    by (simp add: sample_engine_def to_int32_def)
  have g: "snd (snd (swe_calc_ut sample_engine 2460000 (to_int32 (- 1)) (to_int32 (normalizeFlags
            (NamedFlag MoshierEphemeris))))) = ''illegal planet number''"
    by (simp add: sample_engine_def to_int32_def)
  have h: "fst (swe_houses sample_engine 2460000 80 0 (of_char (HouseSystem_value Placidus))) < 0"
    by (simp add: sample_engine_def)
  show ?thesis
    using e g h ready_instance_ready
      computation_failure_surfaces_message [OF ready_instance_ready,
        of sample_engine 2460000 "- 1" "Some (NamedFlag MoshierEphemeris)"
           "''/pkg/ephemeris''" NodeState_initial None None 80 0 None]
    by (simp add: Let_def)
qed

text \<open>
  C5. Every gateway calculation for which the engine returns a negative code is to
  raise an error and return no record. The house calculation of the bytecode-module
  gateway does not: it receives the return code from \<open>ccall\<close> and never tests it.
  The stand-in engine returns -1 for latitude 80; the bytecode-module gateway returns a
  house record built from whatever the buffers hold, where the native gateway, given the
  same call and the same engine, throws.
\<close>

theorem browser_houses_ignores_negative_code:
  "fst (swe_houses sample_engine 2460000 80 0 (of_char (HouseSystem_value Placidus))) = - 1
   \<and> fst (SwissEphemeris_calculateHouses sample_engine ready_instance 2460000 80 0 None)
       = Inr \<lparr>cusps = map (\<lambda>i. 30 * real i) [0..<13], ascendant = 0, mc = 1, armc = 2,
               vertex = 3, equatorialAscendant = 4, coAscendant1 = 5, coAscendant2 = 6,
               polarAscendant = 7, houseSystem = Placidus\<rparr>
   \<and> calculateHouses sample_engine 2460000 80 0 None
       = Inl (Error ''Failed to calculate houses'')"
  by (simp add: browser_houses_result[OF ready_instance_ready] native_houses_result
      sample_engine_def del: upt_Suc)

section \<open>The two gateways compared\<close>

text \<open>
  C9 (as the code has it). On an initialised bytecode-module instance, and for every
  engine: with the calculation flags given explicitly, position calculation and both
  eclipse searches return in both gateways the same outcome (the same record or the
  same error), for every eclipse filter and direction, given or defaulted; date
  conversion in both directions and name lookup return the same values; house
  calculation returns the same record whenever the engine's return code is not negative.
  With the flags left out, the native gateway behaves as with Swiss Ephemeris (with
  speed, for positions) and the bytecode-module gateway as with Moshier.
\<close>

theorem gateways_agree:
  assumes "ready s" and "module s = Some m"
  shows
    "fst (SwissEphemeris_calculatePosition eng s jd body (Some f))
       = fst (calculatePosition eng bp st jd body (Some f))
   \<and> fst (SwissEphemeris_findNextLunarEclipse eng s jd (Some f) t b)
       = fst (findNextLunarEclipse eng bp st jd (Some f) t b)
   \<and> fst (SwissEphemeris_findNextSolarEclipse eng s jd (Some f) t b)
       = fst (findNextSolarEclipse eng bp st jd (Some f) t b)
   \<and> fst (SwissEphemeris_julianDay eng s y mo d h cal) = Inr (julianDay eng y mo d h cal)
   \<and> fst (SwissEphemeris_julianDayToDate eng s jd cal) = Inr (julianDayToDate eng jd cal)
   \<and> fst (SwissEphemeris_getCelestialBodyName eng s body)
       = Inr (getCelestialBodyName eng body)
   \<and> (0 \<le> fst (swe_houses eng jd lat lon
               (of_char (HouseSystem_value (case hs of None \<Rightarrow> Placidus | Some x \<Rightarrow> x))))
        \<longrightarrow> fst (SwissEphemeris_calculateHouses eng s jd lat lon hs)
              = calculateHouses eng jd lat lon hs)
   \<and> fst (calculatePosition eng bp st jd body None)
       = fst (calculatePosition eng bp st jd body (Some (RawNumber DefaultSwissEphemeris)))
   \<and> fst (SwissEphemeris_calculatePosition eng s jd body None)
       = fst (SwissEphemeris_calculatePosition eng s jd body (Some (RawNumber DefaultMoshier)))
   \<and> fst (findNextLunarEclipse eng bp st jd None t b)
       = fst (findNextLunarEclipse eng bp st jd (Some (NamedFlag SwissEphemeris)) t b)
   \<and> fst (SwissEphemeris_findNextLunarEclipse eng s jd None t b)
       = fst (SwissEphemeris_findNextLunarEclipse eng s jd (Some (NamedFlag MoshierEphemeris)) t b)
   \<and> fst (findNextSolarEclipse eng bp st jd None t b)
       = fst (findNextSolarEclipse eng bp st jd (Some (NamedFlag SwissEphemeris)) t b)
   \<and> fst (SwissEphemeris_findNextSolarEclipse eng s jd None t b)
       = fst (SwissEphemeris_findNextSolarEclipse eng s jd (Some (NamedFlag MoshierEphemeris)) t b)"
  unfolding native_position_result browser_position_result[OF assms]
    native_lunar_result browser_lunar_result[OF assms]
    native_solar_result browser_solar_result[OF assms]
    native_houses_result browser_houses_result[OF assms]
    browser_julianDay_result[OF assms] browser_julianDayToDate_result[OF assms]
    browser_getCelestialBodyName_result[OF assms]
  by (simp split: prod.splits)

theorem gateways_agree_witness:
  "ready ready_instance \<and> module ready_instance = Some fresh_module
   \<and> fst (SwissEphemeris_calculatePosition sample_engine ready_instance 2460000 0
            (Some (FlagArray [MoshierEphemeris, Speed])))
       = Inr \<lparr>longitude = 2460000, latitude = 2460001, distance = 2460002,
               longitudeSpeed = 2460003, latitudeSpeed = 2460004, distanceSpeed = 2460005,
               flags = 260\<rparr>
   \<and> fst (calculatePosition sample_engine ''/pkg/ephemeris'' NodeState_initial 2460000 0
            (Some (FlagArray [MoshierEphemeris, Speed])))
       = Inr \<lparr>longitude = 2460000, latitude = 2460001, distance = 2460002,
               longitudeSpeed = 2460003, latitudeSpeed = 2460004, distanceSpeed = 2460005,
               flags = 260\<rparr>
   \<and> 0 \<le> fst (swe_houses sample_engine 2460000 40 (- 74) (of_char (HouseSystem_value Koch)))
   \<and> fst (SwissEphemeris_calculateHouses sample_engine ready_instance 2460000 40 (- 74)
            (Some Koch))
       = calculateHouses sample_engine 2460000 40 (- 74) (Some Koch)"
proof -
  have p: "fst (calculatePosition sample_engine ''/pkg/ephemeris'' NodeState_initial 2460000 0
            (Some (FlagArray [MoshierEphemeris, Speed])))
       = Inr \<lparr>longitude = 2460000, latitude = 2460001, distance = 2460002,
               longitudeSpeed = 2460003, latitudeSpeed = 2460004, distanceSpeed = 2460005,
               flags = 260\<rparr>"
    by (simp add: native_position_result sample_engine_def to_int32_def
        CalculationFlags_from_def CalculationFlags_new_def CalculationFlags_or_in_def
        CalculationFlags_toNumber_def js_or_def)
  have h: "0 \<le> fst (swe_houses sample_engine 2460000 40 (- 74)
                      (of_char (HouseSystem_value Koch)))"
    by (simp add: sample_engine_def)
  show ?thesis
    using p h ready_instance_ready
      gateways_agree [OF ready_instance_ready, of sample_engine 2460000 0
        "FlagArray [MoshierEphemeris, Speed]" "''/pkg/ephemeris''" NodeState_initial
        None None 0 0 0 None None 40 "- 74" "Some Koch"]
    by simp
qed

text \<open>
  The sentence as the specification has it fails when the flags are left to their
  default: for the same call the native gateway passes 258 (Swiss Ephemeris with speed)
  to the engine and the bytecode-module gateway passes 260 (Moshier with speed), as the
  return code of the stand-in engine, which echoes the flags, shows.
\<close>

theorem gateways_default_flags_counterexample:
  "fst (calculatePosition sample_engine ''/pkg/ephemeris'' NodeState_initial 2460000 0 None)
     = Inr \<lparr>longitude = 2460000, latitude = 2460001, distance = 2460002,
             longitudeSpeed = 2460003, latitudeSpeed = 2460004, distanceSpeed = 2460005,
             flags = 258\<rparr>
   \<and> fst (SwissEphemeris_calculatePosition sample_engine ready_instance 2460000 0 None)
     = Inr \<lparr>longitude = 2460000, latitude = 2460001, distance = 2460002,
             longitudeSpeed = 2460003, latitudeSpeed = 2460004, distanceSpeed = 2460005,
             flags = 260\<rparr>"
  by (simp add: native_position_result browser_position_result[OF ready_instance_ready]
      sample_engine_def to_int32_def DefaultSwissEphemeris_def DefaultMoshier_def js_or_def)

end
